theory Spec2Isabelle
  imports Main "HOL-Library.Word"
begin

section \<open>Data model of dpiObject.c\<close>

text \<open>
  A C pointer is \<open>NULL\<close>, the address of something the native layer or the generic
  handle layer owns (\<open>Ptr\<close>), the address of a local variable of the running function
  (\<open>Local\<close>, by the variable's name), or the content of a variable nobody has written
  yet (\<open>Uninit\<close>). A C test \<open>if (p)\<close> is \<open>p \<noteq> NULL\<close>.
\<close>

datatype pointer = NULL | Ptr nat | Local string | Uninit

text \<open>
  The enumerations \<open>dpiOracleTypeNum\<close> and \<open>dpiNativeTypeNum\<close>: one constructor per
  enumerator that dpiObject.c names, \<open>DPI_ORACLE_TYPE_ZERO\<close> for the value 0 that
  \<open>typeInfo.oracleTypeNum\<close> holds when a native type has no mapping, and an \<open>OTHER\<close>
  constructor for the enumerators the file never mentions.
\<close>

datatype dpiOracleTypeNum =
    DPI_ORACLE_TYPE_ZERO
  | DPI_ORACLE_TYPE_VARCHAR
  | DPI_ORACLE_TYPE_NVARCHAR
  | DPI_ORACLE_TYPE_CHAR
  | DPI_ORACLE_TYPE_NCHAR
  | DPI_ORACLE_TYPE_RAW
  | DPI_ORACLE_TYPE_NATIVE_FLOAT
  | DPI_ORACLE_TYPE_NATIVE_DOUBLE
  | DPI_ORACLE_TYPE_NATIVE_INT
  | DPI_ORACLE_TYPE_NUMBER
  | DPI_ORACLE_TYPE_DATE
  | DPI_ORACLE_TYPE_TIMESTAMP
  | DPI_ORACLE_TYPE_TIMESTAMP_TZ
  | DPI_ORACLE_TYPE_TIMESTAMP_LTZ
  | DPI_ORACLE_TYPE_CLOB
  | DPI_ORACLE_TYPE_NCLOB
  | DPI_ORACLE_TYPE_BLOB
  | DPI_ORACLE_TYPE_BFILE
  | DPI_ORACLE_TYPE_BOOLEAN
  | DPI_ORACLE_TYPE_OBJECT
  | DPI_ORACLE_TYPE_OTHER nat

datatype dpiNativeTypeNum =
    DPI_NATIVE_TYPE_INT64
  | DPI_NATIVE_TYPE_UINT64
  | DPI_NATIVE_TYPE_FLOAT
  | DPI_NATIVE_TYPE_DOUBLE
  | DPI_NATIVE_TYPE_BYTES
  | DPI_NATIVE_TYPE_TIMESTAMP
  | DPI_NATIVE_TYPE_LOB
  | DPI_NATIVE_TYPE_OBJECT
  | DPI_NATIVE_TYPE_BOOLEAN
  | DPI_NATIVE_TYPE_OTHER nat

text \<open>
  The structures. A structure that the code only reads through a pointer is passed by
  value. Field names are the C names; where two structures share a field name the second
  one carries a prefix (\<open>conn_closing\<close> is \<open>conn->closing\<close>, \<open>type_env\<close> is
  \<open>objType->env\<close>, \<open>attr_name\<close> is \<open>attr->name\<close>), and \<open>instance\<close>, \<open>value\<close> and
  \<open>length\<close> carry a prime. A counted string (\<open>schema\<close> with \<open>schemaLength\<close>) is a
  \<open>string\<close>.
\<close>

record dpiEnv =
  threaded :: bool
  handle :: pointer
  encoding :: string
  nencoding :: string

record dpiConn =
  conn_closing :: bool
  objects :: pointer

datatype dpiObjectType = DpiObjectType
    (type_env: dpiEnv) (conn: dpiConn) (tdo: pointer) (schema: string) (name: string)
    (isCollection: bool) (elementTypeInfo: dpiDataTypeInfo)
and dpiDataTypeInfo = DpiDataTypeInfo
    (oracleTypeNum: dpiOracleTypeNum) (ociTypeCode: "16 word")
    (objectType: "dpiObjectType option")

record dpiObjectAttr =
  attr_name :: string
  belongsToType :: dpiObjectType
  typeInfo :: dpiDataTypeInfo

text \<open>
  \<open>dpiObject\<close>: \<open>objAddr\<close> is the address of the structure itself, which is what a
  dependent instance stores in \<open>dependsOnObj\<close>. \<open>type\<close> is not \<open>NULL\<close> in any object
  the functions below receive: \<open>dpiObject__allocate\<close> sets it before anything else and
  only \<open>dpiObject__free\<close> clears it, just before the structure is reclaimed.
\<close>

record dpiObject =
  objAddr :: nat
  env :: dpiEnv
  type :: dpiObjectType
  openSlotNum :: "32 word"
  instance' :: pointer
  indicator :: pointer
  dependsOnObj :: pointer
  freeIndicator :: bool
  closing :: bool

record dpiLob =
  lobAddr :: nat
  locator :: pointer

record dpiBytes =
  ptr :: pointer
  length' :: "32 word"
  bytes_encoding :: "string option"

text \<open>
  \<open>dpiDataBuffer\<close> is the union of the external value. The code reads the member that
  the caller's \<open>nativeTypeNum\<close> names, whatever was written, so the members are kept side
  by side; \<open>asObject\<close> and \<open>asLOB\<close> are the structures the pointers lead to. A
  \<open>dpiTimestamp\<close> is only handed to the conversion helpers of dpiDataBuffer.c.
\<close>

type_synonym dpiTimestamp = nat

record dpiDataBuffer =
  asBoolean :: bool
  asInt64 :: "64 word"
  asUint64 :: "64 word"
  asFloat :: "32 word"
  asDouble :: "64 word"
  asBytes :: dpiBytes
  asTimestamp :: dpiTimestamp
  asObject :: dpiObject
  asLOB :: dpiLob

record dpiData =
  isNull :: bool
  value' :: dpiDataBuffer

text \<open>
  \<open>dpiOracleDataBuffer\<close> is the scratch union a conversion to the native form fills.
  Its pointer members (\<open>asRaw\<close>, \<open>asString\<close>, \<open>asRawData\<close>, \<open>asTimestamp\<close>,
  \<open>asLobLocator\<close>) share their storage and are the one constructor \<open>buf_asRaw\<close>; the
  callers declare the buffer without initialising it (\<open>buf_uninit\<close>). Numbers and dates
  in native encoding are opaque codes.
\<close>

datatype dpiOracleDataBuffer =
    buf_uninit
  | buf_asRaw pointer
  | buf_asInt32 "32 word"
  | buf_asFloat "32 word"
  | buf_asDouble "64 word"
  | buf_asNumber nat
  | buf_asDate nat
  | buf_asBoolean bool

text \<open>
  The pointer members of the scratch union as \<open>dpiObject__clearOracleValue\<close> reads them.
  It reads one only under a type tag for which \<open>dpiObject__toOracleValue\<close> has stored a
  pointer member before any return (lemma \<open>toOracleValue_pointer_buffer\<close> below).
\<close>

fun buf_pointer :: "dpiOracleDataBuffer \<Rightarrow> pointer" where
  "buf_pointer (buf_asRaw p) = p"
| "buf_pointer _ = Uninit"

text \<open>
  \<open>dpiOracleData\<close> is the union of pointers into native memory that a native get
  returns: \<open>ora_asRaw\<close> is the pointer itself, the other fields are what the code reads
  through it (\<open>ora_asInt32\<close> is \<open>*value->asInt32\<close>, \<open>ora_asString\<close> is
  \<open>*value->asString\<close>, and so on).
\<close>

record dpiOracleData =
  ora_asRaw :: pointer
  ora_asString :: pointer
  ora_asRawData :: pointer
  ora_asInt32 :: "32 word"
  ora_asFloat :: "32 word"
  ora_asDouble :: "64 word"
  ora_asTimestamp :: pointer
  ora_asBoolean :: bool
  ora_asLobLocator :: pointer
  ora_asCollection :: pointer

definition DPI_OCI_IND_NULL :: "16 word" where
  "DPI_OCI_IND_NULL = - 1"

definition DPI_OCI_IND_NOTNULL :: "16 word" where
  "DPI_OCI_IND_NOTNULL = 0"

section \<open>Errors\<close>

text \<open>
  \<open>dpiError__set(error, action, DPI_ERR_..., args)\<close> fills the error buffer and returns
  \<open>DPI_FAILURE\<close>: the error is the action with the error number and its arguments. An
  error that a collaborator has put into the buffer is \<open>NativeError\<close> of the failed call.
  A function returning \<open>int\<close> returns \<open>Inl\<close> of the error for \<open>DPI_FAILURE\<close> and
  \<open>Inr ()\<close> for \<open>DPI_SUCCESS\<close>.
\<close>

datatype dpiErrorNum =
    DPI_ERR_NOT_COLLECTION string string
  | DPI_ERR_WRONG_ATTR string string string
  | DPI_ERR_WRONG_TYPE string string string string
  | DPI_ERR_INVALID_INDEX "32 word"
  | DPI_ERR_UNHANDLED_CONVERSION dpiOracleTypeNum dpiNativeTypeNum
  | DPI_ERR_UNHANDLED_DATA_TYPE "16 word"
  | DPI_ERR_NULL_POINTER_PARAMETER string

section \<open>The collaborators\<close>

text \<open>
  Everything dpiObject.c calls outside the file (the OCI wrappers \<open>dpiOci__*\<close>, the
  generic handle layer \<open>dpiGen__*\<close>, the handle list, the mutex, the LOB layer and the
  conversion helpers of dpiDataBuffer.c) is a \<open>call\<close>: the C function's name and the
  arguments it is given. The \<open>trace\<close> lists the calls made so far, oldest first, each
  with its status (\<open>True\<close> for a return value that is not negative).
\<close>

datatype arg =
    P pointer
  | B bool
  | I int
  | W "32 word"
  | S string
  | Tag dpiOracleTypeNum
  | Env dpiEnv
  | Conn dpiConn
  | Typ dpiObjectType
  | Attr dpiObjectAttr
  | Obj dpiObject
  | Lob dpiLob
  | Data dpiDataBuffer
  | Buf dpiOracleDataBuffer

datatype call = Call string "arg list"

type_synonym trace = "(call \<times> bool) list"

datatype dpiError = DpiError string dpiErrorNum | NativeError call

type_synonym status = "dpiError + unit"

text \<open>
  The behaviour of the collaborators is a parameter: the status of a call and what it
  writes through each out-parameter are functions of the calls made before and of the
  call itself. \<open>outCode\<close> is a number or date in native encoding, \<open>outIndicator\<close> the
  16-bit null indicator that a native get leaves behind the indicator pointer,
  \<open>outObject\<close> and \<open>outLob\<close> the structure a successful allocation hands out;
  \<open>float_of_double\<close> is the C cast \<open>(float)\<close> on the bit patterns. Every theorem below
  holds for every such behaviour.
\<close>

record native =
  status :: "trace \<Rightarrow> call \<Rightarrow> bool"
  outPtr :: "trace \<Rightarrow> call \<Rightarrow> pointer"
  outInt :: "trace \<Rightarrow> call \<Rightarrow> 32 word"
  outData :: "trace \<Rightarrow> call \<Rightarrow> dpiDataBuffer"
  outCode :: "trace \<Rightarrow> call \<Rightarrow> nat"
  outIndicator :: "trace \<Rightarrow> call \<Rightarrow> 16 word"
  outObject :: "trace \<Rightarrow> call \<Rightarrow> dpiObject"
  outLob :: "trace \<Rightarrow> call \<Rightarrow> dpiLob"
  outValue :: "trace \<Rightarrow> call \<Rightarrow> dpiOracleData"
  float_of_double :: "64 word \<Rightarrow> 32 word"

definition invoke :: "native \<Rightarrow> call \<Rightarrow> trace \<Rightarrow> bool \<times> trace" where
  "invoke nv c tr = (status nv tr c, tr @ [(c, status nv tr c)])"

definition dpiError__set :: "string \<Rightarrow> dpiErrorNum \<Rightarrow> status" where
  "dpiError__set action errorNum = Inl (DpiError action errorNum)"

section \<open>Closing an object\<close>

text \<open>
  \<open>dpiObject__closeHelper\<close> (lines 207-221): free the instance, null it, free the
  indicator when the object owns it, null it, and take the object off the connection's
  list unless the connection is closing.
\<close>

definition dpiObject__closeHelper ::
  "native \<Rightarrow> dpiObject \<Rightarrow> bool \<Rightarrow> trace \<Rightarrow> status \<times> dpiObject \<times> trace" where
  "dpiObject__closeHelper nv obj checkError tr =
    (let c1 = Call ''dpiOci__objectFree''
                [P (handle (env obj)), P (instance' obj), B checkError];
         (ok1, tr1) = invoke nv c1 tr
     in if \<not> ok1 then (Inl (NativeError c1), obj, tr1)
        else
          let obj1 = obj\<lparr>instance' := NULL\<rparr>;
              c2 = Call ''dpiOci__objectFree''
                     [P (handle (env obj1)), P (indicator obj1), B checkError];
              (ok2, tr2) = (if freeIndicator obj1 then invoke nv c2 tr1 else (True, tr1))
          in if \<not> ok2 then (Inl (NativeError c2), obj1, tr2)
             else
               let obj2 = obj1\<lparr>indicator := NULL\<rparr>;
                   tr3 = (if \<not> conn_closing (conn (type obj2))
                          then snd (invoke nv (Call ''dpiHandleList__removeHandle''
                                 [P (objects (conn (type obj2))), W (openSlotNum obj2)]) tr2)
                          else tr2)
               in (Inr (), obj2, tr3))"

text \<open>
  \<open>dpiObject__close\<close> (lines 167-200). The mutex is taken around the read and the write
  of the flag when the environment is threaded.
\<close>

definition mutex_guard :: "native \<Rightarrow> dpiObject \<Rightarrow> string \<Rightarrow> trace \<Rightarrow> trace" where
  "mutex_guard nv obj fn tr =
    (if threaded (env obj) then snd (invoke nv (Call fn []) tr) else tr)"

definition dpiObject__close ::
  "native \<Rightarrow> dpiObject \<Rightarrow> bool \<Rightarrow> trace \<Rightarrow> status \<times> dpiObject \<times> trace" where
  "dpiObject__close nv obj checkError tr =
    (let tr1 = mutex_guard nv obj ''dpiMutex__acquire'' tr;
         was_closing = closing obj;
         obj1 = obj\<lparr>closing := True\<rparr>;
         tr2 = mutex_guard nv obj1 ''dpiMutex__release'' tr1
     in if was_closing then (Inr (), obj1, tr2)
        else if instance' obj1 \<noteq> NULL \<and> dependsOnObj obj1 = NULL then
          (case dpiObject__closeHelper nv obj1 checkError tr2 of
             (Inl e, obj2, tr3) \<Rightarrow>
               (let tr4 = mutex_guard nv obj2 ''dpiMutex__acquire'' tr3;
                    obj3 = obj2\<lparr>closing := False\<rparr>;
                    tr5 = mutex_guard nv obj3 ''dpiMutex__release'' tr4
                in (Inl e, obj3, tr5))
           | (Inr u, obj2, tr3) \<Rightarrow> (Inr (), obj2, tr3))
        else (Inr (), obj1, tr2))"


text \<open>
  \<open>dpiObject__free\<close> (lines 228-240). The result of the close is dropped; the error
  buffer keeps what a failing close has written into it (\<open>Some\<close>), and the structure is
  gone afterwards.
\<close>

definition dpiObject__free :: "native \<Rightarrow> dpiObject \<Rightarrow> trace \<Rightarrow> dpiError option \<times> trace" where
  "dpiObject__free nv obj tr =
    (let (st, obj1, tr1) = dpiObject__close nv obj False tr;
         tr2 = snd (invoke nv (Call ''dpiGen__setRefCount'' [Typ (type obj1), I (- 1)]) tr1);
         tr3 = (if dependsOnObj obj1 \<noteq> NULL
                then snd (invoke nv (Call ''dpiGen__setRefCount'' [P (dependsOnObj obj1), I (- 1)]) tr2)
                else tr2);
         tr4 = snd (invoke nv (Call ''dpiUtils__freeMemory'' [P (Ptr (objAddr obj1))]) tr3)
     in (case st of Inl e \<Rightarrow> Some e | Inr u \<Rightarrow> None, tr4))"

text \<open>
  \<open>dpiObject__allocate\<close> (lines 40-76). \<open>dpiGen__allocate\<close> hands out the new structure;
  \<open>dpiOci__objectNew\<close> writes its \<open>instance\<close>, \<open>dpiOci__objectGetInd\<close> its
  \<open>indicator\<close>, \<open>dpiHandleList__addHandle\<close> its \<open>openSlotNum\<close>. On a failure after the
  allocation the structure is freed and the error is the one left in the buffer.
\<close>

definition allocate_failed ::
  "native \<Rightarrow> dpiError \<Rightarrow> dpiObject \<Rightarrow> trace \<Rightarrow> (dpiError + dpiObject) \<times> trace" where
  "allocate_failed nv e tempObj tr =
    (case dpiObject__free nv tempObj tr of
       (Some e', tr') \<Rightarrow> (Inl e', tr')
     | (None, tr') \<Rightarrow> (Inl e, tr'))"

definition dpiObject__allocate ::
  "native \<Rightarrow> dpiObjectType \<Rightarrow> pointer \<Rightarrow> pointer \<Rightarrow> dpiObject option \<Rightarrow> trace
     \<Rightarrow> (dpiError + dpiObject) \<times> trace" where
  "dpiObject__allocate nv objType inst ind dependsOn tr =
    (let c0 = Call ''dpiGen__allocate'' [S ''DPI_HTYPE_OBJECT'', Env (type_env objType)];
         (ok0, tr0) = invoke nv c0 tr
     in if \<not> ok0 then (Inl (NativeError c0), tr0)
        else
          let tr1 = snd (invoke nv (Call ''dpiGen__setRefCount'' [Typ objType, I 1]) tr0);
              tempObj1 = (outObject nv tr c0)\<lparr>type := objType, instance' := inst, indicator := ind\<rparr>;
              (tempObj2, tr2) =
                (case dependsOn of
                   Some parent \<Rightarrow>
                     (tempObj1\<lparr>dependsOnObj := Ptr (objAddr parent)\<rparr>,
                      snd (invoke nv (Call ''dpiGen__setRefCount'' [P (Ptr (objAddr parent)), I 1]) tr1))
                 | None \<Rightarrow> (tempObj1, tr1));
              cN = Call ''dpiOci__objectNew'' [Obj tempObj2];
              tempObj3 = tempObj2\<lparr>instance' := outPtr nv tr2 cN\<rparr>;
              (okN, tr3) = invoke nv cN tr2;
              cI = Call ''dpiOci__objectGetInd'' [Obj tempObj3];
              tempObj4 = tempObj3\<lparr>indicator := outPtr nv tr3 cI\<rparr>;
              (okI, tr4) = invoke nv cI tr3
          in if inst = NULL \<and> \<not> okN then allocate_failed nv (NativeError cN) tempObj3 tr3
             else if inst = NULL \<and> \<not> okI then allocate_failed nv (NativeError cI) tempObj4 tr4
             else
               let (tempObj5, tr5) = (if inst = NULL then (tempObj4, tr4) else (tempObj2, tr2));
                   cA = Call ''dpiHandleList__addHandle''
                          [P (objects (conn objType)), Obj tempObj5];
                   tempObj6 = tempObj5\<lparr>openSlotNum := outInt nv tr5 cA\<rparr>;
                   (okA, tr6) = invoke nv cA tr5
               in if instance' tempObj5 \<noteq> NULL \<and> dependsOn = None then
                    (if \<not> okA then allocate_failed nv (NativeError cA) tempObj6 tr6
                     else (Inr tempObj6, tr6))
                  else (Inr tempObj5, tr5))"

section \<open>Validation\<close>

text \<open>\<open>dpiObject__check\<close> (lines 83-89) and \<open>dpiObject__checkIsCollection\<close> (lines 96-106).\<close>

definition dpiObject__check :: "native \<Rightarrow> dpiObject \<Rightarrow> string \<Rightarrow> trace \<Rightarrow> status \<times> trace" where
  "dpiObject__check nv obj fnName tr =
    (let c1 = Call ''dpiGen__startPublicFn'' [Obj obj, S ''DPI_HTYPE_OBJECT'', S fnName];
         (ok1, tr1) = invoke nv c1 tr
     in if \<not> ok1 then (Inl (NativeError c1), tr1)
        else
          let c2 = Call ''dpiConn__checkConnected'' [Conn (conn (type obj))];
              (ok2, tr2) = invoke nv c2 tr1
          in (if ok2 then Inr () else Inl (NativeError c2), tr2))"

definition dpiObject__checkIsCollection ::
  "native \<Rightarrow> dpiObject \<Rightarrow> string \<Rightarrow> trace \<Rightarrow> status \<times> trace" where
  "dpiObject__checkIsCollection nv obj fnName tr =
    (case dpiObject__check nv obj fnName tr of
       (Inl e, tr1) \<Rightarrow> (Inl e, tr1)
     | (Inr u, tr1) \<Rightarrow>
         if \<not> isCollection (type obj)
         then (dpiError__set ''check collection''
                 (DPI_ERR_NOT_COLLECTION (schema (type obj)) (name (type obj))), tr1)
         else (Inr (), tr1))"

text \<open>
  \<open>dpiGen__endPublicFn(obj, status, &error)\<close> returns the status it is given.
\<close>

definition dpiGen__endPublicFn :: "native \<Rightarrow> dpiObject \<Rightarrow> status \<Rightarrow> trace \<Rightarrow> status \<times> trace" where
  "dpiGen__endPublicFn nv obj st tr =
    (st, snd (invoke nv (Call ''dpiGen__endPublicFn'' [Obj obj, B (\<not> isl st)]) tr))"

text \<open>
  Modelled from the spec: the macro \<open>DPI_CHECK_PTR_NOT_NULL(obj, parameter)\<close> of
  dpiImpl.h, which is not part of the file. A missing required pointer is the error
  NullArgument, reported through \<open>dpiGen__endPublicFn\<close> like every other failed
  precondition; this is the error it sets.
\<close>

definition null_pointer_parameter :: "string \<Rightarrow> status" where
  "null_pointer_parameter parameter =
     dpiError__set (''check parameter '' @ parameter) (DPI_ERR_NULL_POINTER_PARAMETER parameter)"


section \<open>The scratch buffer\<close>

text \<open>
  \<open>dpiObject__clearOracleValue\<close> (lines 113-156): the release that belongs to the type
  tag, on the pointer the buffer holds if it is not \<open>NULL\<close>; for the LOB tags, one
  reference less on \<open>lob\<close> if it is not \<open>NULL\<close>.
\<close>

definition dpiObject__clearOracleValue ::
  "native \<Rightarrow> dpiObject \<Rightarrow> dpiOracleDataBuffer \<Rightarrow> dpiLob option \<Rightarrow> dpiOracleTypeNum
     \<Rightarrow> trace \<Rightarrow> trace" where
  "dpiObject__clearOracleValue nv obj buffer lob typeNum tr =
    (if typeNum = DPI_ORACLE_TYPE_CHAR \<or> typeNum = DPI_ORACLE_TYPE_NCHAR
        \<or> typeNum = DPI_ORACLE_TYPE_VARCHAR \<or> typeNum = DPI_ORACLE_TYPE_NVARCHAR then
       (if buf_pointer buffer \<noteq> NULL
        then snd (invoke nv (Call ''dpiOci__stringResize''
                    [P (handle (env obj)), P (buf_pointer buffer), W 0]) tr)
        else tr)
     else if typeNum = DPI_ORACLE_TYPE_RAW then
       (if buf_pointer buffer \<noteq> NULL
        then snd (invoke nv (Call ''dpiOci__rawResize''
                    [P (handle (env obj)), P (buf_pointer buffer), W 0]) tr)
        else tr)
     else if typeNum = DPI_ORACLE_TYPE_TIMESTAMP then
       (if buf_pointer buffer \<noteq> NULL
        then snd (invoke nv (Call ''dpiOci__descriptorFree''
                    [P (buf_pointer buffer), S ''DPI_OCI_DTYPE_TIMESTAMP'']) tr)
        else tr)
     else if typeNum = DPI_ORACLE_TYPE_TIMESTAMP_TZ then
       (if buf_pointer buffer \<noteq> NULL
        then snd (invoke nv (Call ''dpiOci__descriptorFree''
                    [P (buf_pointer buffer), S ''DPI_OCI_DTYPE_TIMESTAMP_TZ'']) tr)
        else tr)
     else if typeNum = DPI_ORACLE_TYPE_TIMESTAMP_LTZ then
       (if buf_pointer buffer \<noteq> NULL
        then snd (invoke nv (Call ''dpiOci__descriptorFree''
                    [P (buf_pointer buffer), S ''DPI_OCI_DTYPE_TIMESTAMP_LTZ'']) tr)
        else tr)
     else if typeNum = DPI_ORACLE_TYPE_CLOB \<or> typeNum = DPI_ORACLE_TYPE_NCLOB
        \<or> typeNum = DPI_ORACLE_TYPE_BLOB \<or> typeNum = DPI_ORACLE_TYPE_BFILE then
       (case lob of
          Some l \<Rightarrow> snd (invoke nv (Call ''dpiGen__setRefCount'' [Lob l, I (- 1)]) tr)
        | None \<Rightarrow> tr)
     else tr)"

section \<open>Conversions\<close>

text \<open>
  A conversion helper of dpiDataBuffer.c that fills \<open>data->value\<close> from a native value
  (\<open>return dpiDataBuffer__fromOracle...(&data->value, ...)\<close>): its status is the
  status of the conversion.
\<close>

definition from_helper ::
  "native \<Rightarrow> string \<Rightarrow> arg list \<Rightarrow> dpiData \<Rightarrow> trace \<Rightarrow> status \<times> dpiData \<times> trace" where
  "from_helper nv fn args data tr =
    (let c = Call fn (Data (value' data) # args);
         (ok, tr1) = invoke nv c tr
     in (if ok then Inr () else Inl (NativeError c), data\<lparr>value' := outData nv tr c\<rparr>, tr1))"

text \<open>
  \<open>dpiObject__fromOracleValue\<close> (lines 248-404). \<open>info\<close> is \<open>typeInfo\<close>, \<open>indPtr\<close> the pointer
  \<open>indicator\<close> and \<open>indValue\<close> the 16-bit value behind it. The \<open>int32_t\<close> of a native integer is
  sign-extended into \<open>asInt64\<close>.
\<close>

definition dpiObject__fromOracleValue ::
  "native \<Rightarrow> dpiObject \<Rightarrow> dpiDataTypeInfo \<Rightarrow> dpiOracleData \<Rightarrow> pointer \<Rightarrow> 16 word
     \<Rightarrow> dpiNativeTypeNum \<Rightarrow> dpiData \<Rightarrow> trace \<Rightarrow> status \<times> dpiData \<times> trace" where
  "dpiObject__fromOracleValue nv obj info val indPtr indValue nativeTypeNum data0 tr =
    (if indValue = DPI_OCI_IND_NULL then (Inr (), data0\<lparr>isNull := True\<rparr>, tr)
     else
      let data = data0\<lparr>isNull := False\<rparr>;
          valueOracleTypeNum = oracleTypeNum info;
          unhandled = (dpiError__set ''from Oracle value''
                         (DPI_ERR_UNHANDLED_CONVERSION valueOracleTypeNum nativeTypeNum), data, tr)
      in
      if valueOracleTypeNum = DPI_ORACLE_TYPE_CHAR \<or> valueOracleTypeNum = DPI_ORACLE_TYPE_NCHAR
         \<or> valueOracleTypeNum = DPI_ORACLE_TYPE_VARCHAR
         \<or> valueOracleTypeNum = DPI_ORACLE_TYPE_NVARCHAR then
        (if nativeTypeNum = DPI_NATIVE_TYPE_BYTES then
           let c1 = Call ''dpiOci__stringPtr'' [P (handle (env obj)), P (ora_asString val)];
               tr1 = snd (invoke nv c1 tr);
               c2 = Call ''dpiOci__stringSize'' [P (handle (env obj)), P (ora_asString val)];
               tr2 = snd (invoke nv c2 tr1);
               bytes = \<lparr>ptr = outPtr nv tr c1, length' = outInt nv tr1 c2,
                        bytes_encoding = Some
                          (if valueOracleTypeNum = DPI_ORACLE_TYPE_NCHAR
                              \<or> valueOracleTypeNum = DPI_ORACLE_TYPE_NVARCHAR
                           then nencoding (env obj) else encoding (env obj))\<rparr>
           in (Inr (), data\<lparr>value' := (value' data)\<lparr>asBytes := bytes\<rparr>\<rparr>, tr2)
         else unhandled)
      else if valueOracleTypeNum = DPI_ORACLE_TYPE_RAW then
        (if nativeTypeNum = DPI_NATIVE_TYPE_BYTES then
           let c1 = Call ''dpiOci__rawPtr'' [P (handle (env obj)), P (ora_asRawData val)];
               tr1 = snd (invoke nv c1 tr);
               c2 = Call ''dpiOci__rawSize'' [P (handle (env obj)), P (ora_asRawData val)];
               tr2 = snd (invoke nv c2 tr1);
               bytes = \<lparr>ptr = outPtr nv tr c1, length' = outInt nv tr1 c2,
                        bytes_encoding = None\<rparr>
           in (Inr (), data\<lparr>value' := (value' data)\<lparr>asBytes := bytes\<rparr>\<rparr>, tr2)
         else unhandled)
      else if valueOracleTypeNum = DPI_ORACLE_TYPE_NATIVE_INT then
        (if nativeTypeNum = DPI_NATIVE_TYPE_INT64
         then (Inr (), data\<lparr>value' := (value' data)\<lparr>asInt64 := scast (ora_asInt32 val)\<rparr>\<rparr>, tr)
         else unhandled)
      else if valueOracleTypeNum = DPI_ORACLE_TYPE_NATIVE_FLOAT then
        (if nativeTypeNum = DPI_NATIVE_TYPE_FLOAT
         then (Inr (), data\<lparr>value' := (value' data)\<lparr>asFloat := ora_asFloat val\<rparr>\<rparr>, tr)
         else unhandled)
      else if valueOracleTypeNum = DPI_ORACLE_TYPE_NATIVE_DOUBLE then
        (if nativeTypeNum = DPI_NATIVE_TYPE_DOUBLE
         then (Inr (), data\<lparr>value' := (value' data)\<lparr>asDouble := ora_asDouble val\<rparr>\<rparr>, tr)
         else unhandled)
      else if valueOracleTypeNum = DPI_ORACLE_TYPE_NUMBER then
        (if nativeTypeNum = DPI_NATIVE_TYPE_DOUBLE then
           from_helper nv ''dpiDataBuffer__fromOracleNumberAsDouble'' [P (ora_asRaw val)] data tr
         else if nativeTypeNum = DPI_NATIVE_TYPE_INT64 then
           from_helper nv ''dpiDataBuffer__fromOracleNumberAsInteger'' [P (ora_asRaw val)] data tr
         else if nativeTypeNum = DPI_NATIVE_TYPE_UINT64 then
           from_helper nv ''dpiDataBuffer__fromOracleNumberAsUnsignedInteger''
             [P (ora_asRaw val)] data tr
         else if nativeTypeNum = DPI_NATIVE_TYPE_BYTES then
           from_helper nv ''dpiDataBuffer__fromOracleNumberAsText''
             [Env (env obj), P (ora_asRaw val)] data tr
         else unhandled)
      else if valueOracleTypeNum = DPI_ORACLE_TYPE_DATE then
        (if nativeTypeNum = DPI_NATIVE_TYPE_TIMESTAMP then
           from_helper nv ''dpiDataBuffer__fromOracleDate'' [P (ora_asRaw val)] data tr
         else if nativeTypeNum = DPI_NATIVE_TYPE_DOUBLE then
           from_helper nv ''dpiDataBuffer__fromOracleDateAsDouble''
             [Env (env obj), P (ora_asRaw val)] data tr
         else unhandled)
      else if valueOracleTypeNum = DPI_ORACLE_TYPE_TIMESTAMP then
        (if nativeTypeNum = DPI_NATIVE_TYPE_TIMESTAMP then
           from_helper nv ''dpiDataBuffer__fromOracleTimestamp''
             [Env (env obj), P (ora_asTimestamp val), I 0] data tr
         else if nativeTypeNum = DPI_NATIVE_TYPE_DOUBLE then
           from_helper nv ''dpiDataBuffer__fromOracleTimestampAsDouble''
             [Tag valueOracleTypeNum, Env (env obj), P (ora_asTimestamp val)] data tr
         else unhandled)
      else if valueOracleTypeNum = DPI_ORACLE_TYPE_TIMESTAMP_TZ
         \<or> valueOracleTypeNum = DPI_ORACLE_TYPE_TIMESTAMP_LTZ then
        (if nativeTypeNum = DPI_NATIVE_TYPE_TIMESTAMP then
           from_helper nv ''dpiDataBuffer__fromOracleTimestamp''
             [Env (env obj), P (ora_asTimestamp val), I 1] data tr
         else if nativeTypeNum = DPI_NATIVE_TYPE_DOUBLE then
           from_helper nv ''dpiDataBuffer__fromOracleTimestampAsDouble''
             [Tag valueOracleTypeNum, Env (env obj), P (ora_asTimestamp val)] data tr
         else unhandled)
      else if valueOracleTypeNum = DPI_ORACLE_TYPE_OBJECT then
        (case objectType info of
           Some elemType \<Rightarrow>
             if nativeTypeNum = DPI_NATIVE_TYPE_OBJECT then
               let inst = (if isCollection elemType \<and> \<not> isCollection (type obj)
                           then ora_asCollection val else ora_asRaw val)
               in (case dpiObject__allocate nv elemType inst indPtr (Some obj) tr of
                     (Inl e, tr1) \<Rightarrow> (Inl e, data, tr1)
                   | (Inr tempObj, tr1) \<Rightarrow>
                       (Inr (), data\<lparr>value' := (value' data)\<lparr>asObject := tempObj\<rparr>\<rparr>, tr1))
             else unhandled
         | None \<Rightarrow> unhandled)
      else if valueOracleTypeNum = DPI_ORACLE_TYPE_BOOLEAN then
        (if nativeTypeNum = DPI_NATIVE_TYPE_BOOLEAN
         then (Inr (), data\<lparr>value' := (value' data)\<lparr>asBoolean := ora_asBoolean val\<rparr>\<rparr>, tr)
         else unhandled)
      else if valueOracleTypeNum = DPI_ORACLE_TYPE_CLOB \<or> valueOracleTypeNum = DPI_ORACLE_TYPE_NCLOB
         \<or> valueOracleTypeNum = DPI_ORACLE_TYPE_BLOB \<or> valueOracleTypeNum = DPI_ORACLE_TYPE_BFILE then
        (if nativeTypeNum = DPI_NATIVE_TYPE_LOB then
           (let cL = Call ''dpiLob__allocate'' [Conn (conn (type obj)), Tag (oracleTypeNum info)];
               (okL, tr1) = invoke nv cL tr
           in if \<not> okL then (Inl (NativeError cL), data, tr1)
              else
                let tempLob = outLob nv tr cL;
                    tempLocator = locator tempLob;
                    cA = Call ''dpiOci__lobLocatorAssign''
                           [Lob (tempLob\<lparr>locator := ora_asLobLocator val\<rparr>), P tempLocator];
                    (okA, tr2) = invoke nv cA tr1;
                    tempLob' = tempLob\<lparr>locator := outPtr nv tr1 cA\<rparr>
                in if \<not> okA
                   then (Inl (NativeError cA), data,
                         snd (invoke nv (Call ''dpiLob__free'' [Lob tempLob']) tr2))
                   else (Inr (), data\<lparr>value' := (value' data)\<lparr>asLOB := tempLob'\<rparr>\<rparr>, tr2))
         else unhandled)
      else unhandled)"


text \<open>
  What \<open>dpiObject__toOracleValue\<close> leaves in its out-parameters: the scratch
  \<open>buffer\<close>, \<open>*lob\<close>, \<open>*ociValue\<close>, \<open>*valueIndicator\<close> and \<open>*objectIndicator\<close>.
\<close>

record scratch =
  buffer :: dpiOracleDataBuffer
  lob :: "dpiLob option"
  ociValue :: pointer
  valueIndicator :: "16 word"
  objectIndicator :: pointer

text \<open>
  A conversion helper of dpiDataBuffer.c that fills the number or the date of the
  scratch buffer from \<open>data->value\<close>.
\<close>

definition to_helper ::
  "native \<Rightarrow> string \<Rightarrow> arg list \<Rightarrow> (nat \<Rightarrow> dpiOracleDataBuffer) \<Rightarrow> dpiData \<Rightarrow> scratch
     \<Rightarrow> trace \<Rightarrow> status \<times> scratch \<times> trace" where
  "to_helper nv fn args member data out tr =
    (let c = Call fn (Data (value' data) # args);
         (ok, tr1) = invoke nv c tr
     in (if ok then Inr () else Inl (NativeError c),
         out\<lparr>buffer := member (outCode nv tr c)\<rparr>, tr1))"

text \<open>
  \<open>dpiObject__toOracleValue\<close> (lines 411-585). \<open>buffer0\<close> and \<open>lob0\<close> are what the
  caller's \<open>buffer\<close> and \<open>*lob\<close> hold on entry; \<open>*ociValue\<close> is an uninitialised
  variable of the caller. The address of a member of the buffer is \<open>Local ''buffer''\<close>.
  The cast \<open>(int32_t)\<close> keeps the low 32 bits. \<open>dataTypeInfo->objectType\<close> is
  dereferenced without a test in the object case.
\<close>

definition dpiObject__toOracleValue ::
  "native \<Rightarrow> dpiObject \<Rightarrow> dpiDataTypeInfo \<Rightarrow> dpiOracleDataBuffer \<Rightarrow> dpiLob option
     \<Rightarrow> dpiNativeTypeNum \<Rightarrow> dpiData \<Rightarrow> trace \<Rightarrow> status \<times> scratch \<times> trace" where
  "dpiObject__toOracleValue nv obj dataTypeInfo buffer0 lob0 nativeTypeNum data tr =
    (if isNull data then
       (Inr (), \<lparr>buffer = buf_asRaw NULL, lob = lob0, ociValue = NULL,
                 valueIndicator = DPI_OCI_IND_NULL, objectIndicator = NULL\<rparr>, tr)
     else
      let out = \<lparr>buffer = buffer0, lob = lob0, ociValue = Uninit,
                   valueIndicator = DPI_OCI_IND_NOTNULL, objectIndicator = NULL\<rparr>;
          valueOracleTypeNum = oracleTypeNum dataTypeInfo;
          unhandled = (\<lambda>out'. (dpiError__set ''to Oracle value''
                         (DPI_ERR_UNHANDLED_CONVERSION valueOracleTypeNum nativeTypeNum), out', tr));
          bytes = asBytes (value' data)
      in
      if valueOracleTypeNum = DPI_ORACLE_TYPE_CHAR \<or> valueOracleTypeNum = DPI_ORACLE_TYPE_NCHAR
         \<or> valueOracleTypeNum = DPI_ORACLE_TYPE_VARCHAR
         \<or> valueOracleTypeNum = DPI_ORACLE_TYPE_NVARCHAR then
        (if nativeTypeNum = DPI_NATIVE_TYPE_BYTES then
           (let c = Call ''dpiOci__stringAssignText''
                      [P (handle (env obj)), P (ptr bytes), W (length' bytes), P NULL];
                (ok, tr1) = invoke nv c tr;
                out1 = out\<lparr>buffer := buf_asRaw (outPtr nv tr c)\<rparr>
            in if \<not> ok then (Inl (NativeError c), out1, tr1)
               else (Inr (), out1\<lparr>ociValue := outPtr nv tr c\<rparr>, tr1))
         else unhandled (out\<lparr>buffer := buf_asRaw NULL\<rparr>))
      else if valueOracleTypeNum = DPI_ORACLE_TYPE_RAW then
        (if nativeTypeNum = DPI_NATIVE_TYPE_BYTES then
           (let c = Call ''dpiOci__rawAssignBytes''
                      [P (handle (env obj)), P (ptr bytes), W (length' bytes), P NULL];
                (ok, tr1) = invoke nv c tr;
                out1 = out\<lparr>buffer := buf_asRaw (outPtr nv tr c)\<rparr>
            in if \<not> ok then (Inl (NativeError c), out1, tr1)
               else (Inr (), out1\<lparr>ociValue := outPtr nv tr c\<rparr>, tr1))
         else unhandled (out\<lparr>buffer := buf_asRaw NULL\<rparr>))
      else if valueOracleTypeNum = DPI_ORACLE_TYPE_NATIVE_INT then
        (if nativeTypeNum = DPI_NATIVE_TYPE_INT64
         then (Inr (), out\<lparr>buffer := buf_asInt32 (ucast (asInt64 (value' data))),
                            ociValue := Local ''buffer''\<rparr>, tr)
         else unhandled out)
      else if valueOracleTypeNum = DPI_ORACLE_TYPE_NUMBER then
        (let out1 = out\<lparr>ociValue := Local ''buffer''\<rparr>
         in if nativeTypeNum = DPI_NATIVE_TYPE_INT64 then
              to_helper nv ''dpiDataBuffer__toOracleNumberFromInteger'' [] buf_asNumber data out1 tr
            else if nativeTypeNum = DPI_NATIVE_TYPE_DOUBLE then
              to_helper nv ''dpiDataBuffer__toOracleNumberFromDouble'' [] buf_asNumber data out1 tr
            else if nativeTypeNum = DPI_NATIVE_TYPE_BYTES then
              to_helper nv ''dpiDataBuffer__toOracleNumberFromText'' [Env (env obj)]
                buf_asNumber data out1 tr
            else unhandled out1)
      else if valueOracleTypeNum = DPI_ORACLE_TYPE_NATIVE_FLOAT then
        (if nativeTypeNum = DPI_NATIVE_TYPE_FLOAT
         then (Inr (), out\<lparr>buffer := buf_asFloat (asFloat (value' data)),
                            ociValue := Local ''buffer''\<rparr>, tr)
         else if nativeTypeNum = DPI_NATIVE_TYPE_DOUBLE
         then (Inr (), out\<lparr>buffer := buf_asFloat (float_of_double nv (asDouble (value' data))),
                            ociValue := Local ''buffer''\<rparr>, tr)
         else unhandled out)
      else if valueOracleTypeNum = DPI_ORACLE_TYPE_NATIVE_DOUBLE then
        (if nativeTypeNum = DPI_NATIVE_TYPE_DOUBLE
         then (Inr (), out\<lparr>buffer := buf_asDouble (asDouble (value' data)),
                            ociValue := Local ''buffer''\<rparr>, tr)
         else unhandled out)
      else if valueOracleTypeNum = DPI_ORACLE_TYPE_DATE then
        (let out1 = out\<lparr>ociValue := Local ''buffer''\<rparr>
         in if nativeTypeNum = DPI_NATIVE_TYPE_TIMESTAMP then
              to_helper nv ''dpiDataBuffer__toOracleDate'' [] buf_asDate data out1 tr
            else if nativeTypeNum = DPI_NATIVE_TYPE_DOUBLE then
              to_helper nv ''dpiDataBuffer__toOracleDateFromDouble'' [Env (env obj)]
                buf_asDate data out1 tr
            else unhandled out1)
      else if valueOracleTypeNum = DPI_ORACLE_TYPE_TIMESTAMP
         \<or> valueOracleTypeNum = DPI_ORACLE_TYPE_TIMESTAMP_TZ
         \<or> valueOracleTypeNum = DPI_ORACLE_TYPE_TIMESTAMP_LTZ then
        (if nativeTypeNum = DPI_NATIVE_TYPE_TIMESTAMP \<or> nativeTypeNum = DPI_NATIVE_TYPE_DOUBLE then
           (let handleType =
                  (if valueOracleTypeNum = DPI_ORACLE_TYPE_TIMESTAMP_LTZ
                   then ''DPI_OCI_DTYPE_TIMESTAMP_LTZ''
                   else if valueOracleTypeNum = DPI_ORACLE_TYPE_TIMESTAMP
                   then ''DPI_OCI_DTYPE_TIMESTAMP''
                   else ''DPI_OCI_DTYPE_TIMESTAMP_TZ'');
                c = Call ''dpiOci__descriptorAlloc''
                      [P (handle (env obj)), P NULL, S handleType, S ''allocate timestamp''];
                (ok, tr1) = invoke nv c tr;
                out1 = out\<lparr>buffer := buf_asRaw (outPtr nv tr c)\<rparr>;
                out2 = out1\<lparr>ociValue := outPtr nv tr c\<rparr>;
                c2 = (if nativeTypeNum = DPI_NATIVE_TYPE_TIMESTAMP
                      then Call ''dpiDataBuffer__toOracleTimestamp''
                             [Data (value' data), Env (env obj), P (outPtr nv tr c),
                              B (valueOracleTypeNum \<noteq> DPI_ORACLE_TYPE_TIMESTAMP)]
                      else Call ''dpiDataBuffer__toOracleTimestampFromDouble''
                             [Data (value' data), Tag valueOracleTypeNum, Env (env obj),
                              P (outPtr nv tr c)]);
                (ok2, tr2) = invoke nv c2 tr1
            in if \<not> ok then (Inl (NativeError c), out1, tr1)
               else (if ok2 then Inr () else Inl (NativeError c2), out2, tr2))
         else unhandled (out\<lparr>buffer := buf_asRaw NULL\<rparr>))
      else if valueOracleTypeNum = DPI_ORACLE_TYPE_OBJECT then
        (let otherObj = asObject (value' data)
         in if nativeTypeNum = DPI_NATIVE_TYPE_OBJECT then
              (if tdo (type otherObj) \<noteq> tdo (the (objectType dataTypeInfo))
               then (dpiError__set ''check type''
                       (DPI_ERR_WRONG_TYPE (schema (type otherObj)) (name (type otherObj))
                          (schema (the (objectType dataTypeInfo)))
                          (name (the (objectType dataTypeInfo)))), out, tr)
               else (Inr (), out\<lparr>ociValue := instance' otherObj,
                                  objectIndicator := indicator otherObj\<rparr>, tr))
            else unhandled out)
      else if valueOracleTypeNum = DPI_ORACLE_TYPE_BOOLEAN then
        (if nativeTypeNum = DPI_NATIVE_TYPE_BOOLEAN
         then (Inr (), out\<lparr>buffer := buf_asBoolean (asBoolean (value' data)),
                            ociValue := Local ''buffer''\<rparr>, tr)
         else unhandled out)
      else if valueOracleTypeNum = DPI_ORACLE_TYPE_CLOB \<or> valueOracleTypeNum = DPI_ORACLE_TYPE_NCLOB
         \<or> valueOracleTypeNum = DPI_ORACLE_TYPE_BLOB \<or> valueOracleTypeNum = DPI_ORACLE_TYPE_BFILE then
        (let out1 = out\<lparr>buffer := buf_asRaw NULL\<rparr>
         in if nativeTypeNum = DPI_NATIVE_TYPE_LOB then
              (Inr (), out1\<lparr>ociValue := locator (asLOB (value' data))\<rparr>, tr)
            else if nativeTypeNum = DPI_NATIVE_TYPE_BYTES then
              (let cL = Call ''dpiLob__allocate'' [Conn (conn (type obj)), Tag valueOracleTypeNum];
                   (okL, tr1) = invoke nv cL tr;
                   newLob = outLob nv tr cL;
                   out2 = out1\<lparr>lob := Some newLob\<rparr>;
                   cS = Call ''dpiLob__setFromBytes'' [Lob newLob, P (ptr bytes), W (length' bytes)];
                   (okS, tr2) = invoke nv cS tr1
               in if \<not> okL then (Inl (NativeError cL), out1, tr1)
                  else if \<not> okS then (Inl (NativeError cS), out2, tr2)
                  else (Inr (), out2\<lparr>buffer := buf_asRaw (locator newLob),
                                      ociValue := locator newLob\<rparr>, tr2))
            else unhandled out1)
      else unhandled out)"


section \<open>Public functions\<close>

text \<open>
  A pointer argument that may be \<open>NULL\<close> is an \<open>option\<close>: \<open>None\<close> for \<open>NULL\<close>,
  \<open>Some\<close> of what it points to otherwise; an out-parameter comes back with what the
  function has left in it. The buffer, the LOB pointer and the indicators of a conversion
  are local variables: \<open>valueBuffer\<close> starts uninitialised, \<open>lob\<close> starts \<open>NULL\<close>.
\<close>

definition native_status :: "native \<Rightarrow> call \<Rightarrow> trace \<Rightarrow> status \<times> trace" where
  "native_status nv c tr =
    (let (ok, tr1) = invoke nv c tr in (if ok then Inr () else Inl (NativeError c), tr1))"

text \<open>\<open>dpiObject_appendElement\<close> (lines 602-628).\<close>

definition dpiObject_appendElement ::
  "native \<Rightarrow> dpiObject \<Rightarrow> dpiNativeTypeNum \<Rightarrow> dpiData option \<Rightarrow> trace \<Rightarrow> status \<times> trace" where
  "dpiObject_appendElement nv obj nativeTypeNum data tr =
    (case dpiObject__checkIsCollection nv obj ''dpiObject_appendElement'' tr of
       (Inl e, tr1) \<Rightarrow> dpiGen__endPublicFn nv obj (Inl e) tr1
     | (Inr u, tr1) \<Rightarrow>
        (case data of
           None \<Rightarrow> dpiGen__endPublicFn nv obj (null_pointer_parameter ''data'') tr1
         | Some d \<Rightarrow>
            let (st, out, tr2) =
                  dpiObject__toOracleValue nv obj (elementTypeInfo (type obj)) buf_uninit None
                    nativeTypeNum d tr1;
                ind = (if objectIndicator out = NULL then Local ''scalarValueIndicator''
                       else objectIndicator out);
                (st', tr3) =
                  (case st of
                     Inr u \<Rightarrow> native_status nv (Call ''dpiOci__collAppend''
                                [Conn (conn (type obj)), P (ociValue out), Buf (buffer out), P ind,
                                 I (sint (valueIndicator out)), P (instance' obj)]) tr2
                   | Inl e \<Rightarrow> (Inl e, tr2));
                tr4 = dpiObject__clearOracleValue nv obj (buffer out) (lob out)
                        (oracleTypeNum (elementTypeInfo (type obj))) tr3
            in dpiGen__endPublicFn nv obj st' tr4))"

text \<open>\<open>dpiObject_setElementValueByIndex\<close> (lines 939-965).\<close>

definition dpiObject_setElementValueByIndex ::
  "native \<Rightarrow> dpiObject \<Rightarrow> 32 word \<Rightarrow> dpiNativeTypeNum \<Rightarrow> dpiData option \<Rightarrow> trace
     \<Rightarrow> status \<times> trace" where
  "dpiObject_setElementValueByIndex nv obj index nativeTypeNum data tr =
    (case dpiObject__checkIsCollection nv obj ''dpiObject_setElementValueByIndex'' tr of
       (Inl e, tr1) \<Rightarrow> dpiGen__endPublicFn nv obj (Inl e) tr1
     | (Inr u, tr1) \<Rightarrow>
        (case data of
           None \<Rightarrow> dpiGen__endPublicFn nv obj (null_pointer_parameter ''data'') tr1
         | Some d \<Rightarrow>
            let (st, out, tr2) =
                  dpiObject__toOracleValue nv obj (elementTypeInfo (type obj)) buf_uninit None
                    nativeTypeNum d tr1;
                ind = (if objectIndicator out = NULL then Local ''scalarValueIndicator''
                       else objectIndicator out);
                (st', tr3) =
                  (case st of
                     Inr u \<Rightarrow> native_status nv (Call ''dpiOci__collAssignElem''
                                [Conn (conn (type obj)), W index, P (ociValue out), Buf (buffer out),
                                 P ind, I (sint (valueIndicator out)), P (instance' obj)]) tr2
                   | Inl e \<Rightarrow> (Inl e, tr2));
                tr4 = dpiObject__clearOracleValue nv obj (buffer out) (lob out)
                        (oracleTypeNum (elementTypeInfo (type obj))) tr3
            in dpiGen__endPublicFn nv obj st' tr4))"

text \<open>
  \<open>dpiObject_setAttributeValue\<close> (lines 889-932). A failing \<open>dpiObject__check\<close> returns
  at once, without \<open>dpiGen__endPublicFn\<close>.
\<close>

definition dpiObject_setAttributeValue ::
  "native \<Rightarrow> dpiObject \<Rightarrow> dpiObjectAttr \<Rightarrow> dpiNativeTypeNum \<Rightarrow> dpiData option \<Rightarrow> trace
     \<Rightarrow> status \<times> trace" where
  "dpiObject_setAttributeValue nv obj attr nativeTypeNum data tr =
    (case dpiObject__check nv obj ''dpiObject_setAttributeValue'' tr of
       (Inl e, tr1) \<Rightarrow> (Inl e, tr1)
     | (Inr u, tr1) \<Rightarrow>
        (case data of
           None \<Rightarrow> dpiGen__endPublicFn nv obj (null_pointer_parameter ''data'') tr1
         | Some d \<Rightarrow>
            (case native_status nv (Call ''dpiGen__checkHandle''
                     [Attr attr, S ''DPI_HTYPE_OBJECT_ATTR'', S ''set attribute value'']) tr1 of
               (Inl e, tr2) \<Rightarrow> dpiGen__endPublicFn nv obj (Inl e) tr2
             | (Inr u, tr2) \<Rightarrow>
                if tdo (belongsToType attr) \<noteq> tdo (type obj) then
                  dpiGen__endPublicFn nv obj
                    (dpiError__set ''set attribute value''
                       (DPI_ERR_WRONG_ATTR (attr_name attr) (schema (type obj)) (name (type obj))))
                    tr2
                else if oracleTypeNum (typeInfo attr) = DPI_ORACLE_TYPE_ZERO then
                  dpiGen__endPublicFn nv obj
                    (dpiError__set ''get attribute value''
                       (DPI_ERR_UNHANDLED_DATA_TYPE (ociTypeCode (typeInfo attr)))) tr2
                else
                  let (st, out, tr3) =
                        dpiObject__toOracleValue nv obj (typeInfo attr) buf_uninit None
                          nativeTypeNum d tr2;
                      (st', tr4) =
                        (case st of
                           Inr u \<Rightarrow> native_status nv (Call ''dpiOci__objectSetAttr''
                                      [Obj obj, Attr attr, I (sint (valueIndicator out)),
                                       P (objectIndicator out), P (ociValue out), Buf (buffer out)])
                                      tr3
                         | Inl e \<Rightarrow> (Inl e, tr3));
                      tr5 = dpiObject__clearOracleValue nv obj (buffer out) (lob out)
                              (oracleTypeNum (typeInfo attr)) tr4
                  in dpiGen__endPublicFn nv obj st' tr5)))"

text \<open>
  \<open>dpiObject_getAttributeValue\<close> (lines 675-718). \<open>dpiOci__objectGetAttr\<close> hands out
  the value, the indicator pointer and the scalar indicator; the indicator that counts is
  the scalar one when the pointer is \<open>NULL\<close>.
\<close>

definition dpiObject_getAttributeValue ::
  "native \<Rightarrow> dpiObject \<Rightarrow> dpiObjectAttr \<Rightarrow> dpiNativeTypeNum \<Rightarrow> dpiData option \<Rightarrow> trace
     \<Rightarrow> status \<times> dpiData option \<times> trace" where
  "dpiObject_getAttributeValue nv obj attr nativeTypeNum data tr =
    (case dpiObject__check nv obj ''dpiObject_getAttributeValue'' tr of
       (Inl e, tr1) \<Rightarrow> (Inl e, data, tr1)
     | (Inr u, tr1) \<Rightarrow>
        (case data of
           None \<Rightarrow>
             (case dpiGen__endPublicFn nv obj (null_pointer_parameter ''data'') tr1 of
                (st, tr2) \<Rightarrow> (st, None, tr2))
         | Some d \<Rightarrow>
            (case native_status nv (Call ''dpiGen__checkHandle''
                     [Attr attr, S ''DPI_HTYPE_OBJECT_ATTR'', S ''get attribute value'']) tr1 of
               (Inl e, tr2) \<Rightarrow>
                 (case dpiGen__endPublicFn nv obj (Inl e) tr2 of (st, tr3) \<Rightarrow> (st, data, tr3))
             | (Inr u, tr2) \<Rightarrow>
                if tdo (belongsToType attr) \<noteq> tdo (type obj) then
                  (case dpiGen__endPublicFn nv obj
                          (dpiError__set ''get attribute value''
                             (DPI_ERR_WRONG_ATTR (attr_name attr) (schema (type obj))
                                (name (type obj)))) tr2 of
                     (st, tr3) \<Rightarrow> (st, data, tr3))
                else
                  let cG = Call ''dpiOci__objectGetAttr'' [Obj obj, Attr attr]
                  in (case native_status nv cG tr2 of
                        (Inl e, tr3) \<Rightarrow>
                          (case dpiGen__endPublicFn nv obj (Inl e) tr3 of
                             (st, tr4) \<Rightarrow> (st, data, tr4))
                      | (Inr u, tr3) \<Rightarrow>
                          let valueIndicator =
                                (if outPtr nv tr2 cG = NULL then Local ''scalarValueIndicator''
                                 else outPtr nv tr2 cG)
                          in if oracleTypeNum (typeInfo attr) = DPI_ORACLE_TYPE_ZERO then
                               (case dpiGen__endPublicFn nv obj
                                       (dpiError__set ''get attribute value''
                                          (DPI_ERR_UNHANDLED_DATA_TYPE (ociTypeCode (typeInfo attr))))
                                       tr3 of
                                  (st, tr4) \<Rightarrow> (st, data, tr4))
                             else
                               (case dpiObject__fromOracleValue nv obj (typeInfo attr)
                                       (outValue nv tr2 cG) valueIndicator (outIndicator nv tr2 cG)
                                       nativeTypeNum d tr3 of
                                  (st, d', tr4) \<Rightarrow>
                                    (case dpiGen__endPublicFn nv obj st tr4 of
                                       (st', tr5) \<Rightarrow> (st', Some d', tr5)))))))"

text \<open>
  \<open>dpiObject_getFirstIndex\<close> (lines 774-791). \<open>index\<close> and \<open>exists\<close> are the cells
  behind the two out-pointers.
\<close>

definition dpiObject_getFirstIndex ::
  "native \<Rightarrow> dpiObject \<Rightarrow> 32 word option \<Rightarrow> bool option \<Rightarrow> trace
     \<Rightarrow> status \<times> 32 word option \<times> bool option \<times> trace" where
  "dpiObject_getFirstIndex nv obj index exists tr =
    (case dpiObject__checkIsCollection nv obj ''dpiObject_getFirstIndex'' tr of
       (Inl e, tr1) \<Rightarrow>
         (case dpiGen__endPublicFn nv obj (Inl e) tr1 of (st, tr2) \<Rightarrow> (st, index, exists, tr2))
     | (Inr u, tr1) \<Rightarrow>
        (case index of
           None \<Rightarrow>
             (case dpiGen__endPublicFn nv obj (null_pointer_parameter ''index'') tr1 of
                (st, tr2) \<Rightarrow> (st, index, exists, tr2))
         | Some index0 \<Rightarrow>
            (case exists of
               None \<Rightarrow>
                 (case dpiGen__endPublicFn nv obj (null_pointer_parameter ''exists'') tr1 of
                    (st, tr2) \<Rightarrow> (st, index, exists, tr2))
             | Some exists0 \<Rightarrow>
                let cS = Call ''dpiOci__tableSize'' [Obj obj]
                in (case native_status nv cS tr1 of
                      (Inl e, tr2) \<Rightarrow>
                        (case dpiGen__endPublicFn nv obj (Inl e) tr2 of
                           (st, tr3) \<Rightarrow> (st, index, exists, tr3))
                    | (Inr u, tr2) \<Rightarrow>
                        let size = outInt nv tr1 cS;
                            cF = Call ''dpiOci__tableFirst'' [Obj obj, W index0]
                        in if size \<noteq> 0 then
                             (case native_status nv cF tr2 of
                                (st, tr3) \<Rightarrow>
                                  (case dpiGen__endPublicFn nv obj st tr3 of
                                     (st', tr4) \<Rightarrow>
                                       (st', Some (outInt nv tr2 cF), Some True, tr4)))
                           else
                             (case dpiGen__endPublicFn nv obj (Inr ()) tr2 of
                                (st', tr3) \<Rightarrow> (st', index, Some False, tr3))))))"

text \<open>\<open>dpiObject_getLastIndex\<close> (lines 798-815).\<close>

definition dpiObject_getLastIndex ::
  "native \<Rightarrow> dpiObject \<Rightarrow> 32 word option \<Rightarrow> bool option \<Rightarrow> trace
     \<Rightarrow> status \<times> 32 word option \<times> bool option \<times> trace" where
  "dpiObject_getLastIndex nv obj index exists tr =
    (case dpiObject__checkIsCollection nv obj ''dpiObject_getLastIndex'' tr of
       (Inl e, tr1) \<Rightarrow>
         (case dpiGen__endPublicFn nv obj (Inl e) tr1 of (st, tr2) \<Rightarrow> (st, index, exists, tr2))
     | (Inr u, tr1) \<Rightarrow>
        (case index of
           None \<Rightarrow>
             (case dpiGen__endPublicFn nv obj (null_pointer_parameter ''index'') tr1 of
                (st, tr2) \<Rightarrow> (st, index, exists, tr2))
         | Some index0 \<Rightarrow>
            (case exists of
               None \<Rightarrow>
                 (case dpiGen__endPublicFn nv obj (null_pointer_parameter ''exists'') tr1 of
                    (st, tr2) \<Rightarrow> (st, index, exists, tr2))
             | Some exists0 \<Rightarrow>
                let cS = Call ''dpiOci__tableSize'' [Obj obj]
                in (case native_status nv cS tr1 of
                      (Inl e, tr2) \<Rightarrow>
                        (case dpiGen__endPublicFn nv obj (Inl e) tr2 of
                           (st, tr3) \<Rightarrow> (st, index, exists, tr3))
                    | (Inr u, tr2) \<Rightarrow>
                        let size = outInt nv tr1 cS;
                            cF = Call ''dpiOci__tableLast'' [Obj obj, W index0]
                        in if size \<noteq> 0 then
                             (case native_status nv cF tr2 of
                                (st, tr3) \<Rightarrow>
                                  (case dpiGen__endPublicFn nv obj st tr3 of
                                     (st', tr4) \<Rightarrow>
                                       (st', Some (outInt nv tr2 cF), Some True, tr4)))
                           else
                             (case dpiGen__endPublicFn nv obj (Inr ()) tr2 of
                                (st', tr3) \<Rightarrow> (st', index, Some False, tr3))))))"

section \<open>Notions used by the properties\<close>

text \<open>
  The calls a function has added to the trace; the trace without the mutex calls (the
  native work); the successful \<open>dpiOci__objectFree\<close> calls on a pointer; the calls that
  release scratch storage.
\<close>

definition new_events :: "trace \<Rightarrow> trace \<Rightarrow> trace" where
  "new_events tr tr' = drop (length tr) tr'"

fun call_name :: "call \<Rightarrow> string" where
  "call_name (Call fn args) = fn"

fun is_mutex :: "call \<times> bool \<Rightarrow> bool" where
  "is_mutex (Call fn args, ok) = (fn = ''dpiMutex__acquire'' \<or> fn = ''dpiMutex__release'')"

definition native_work :: "trace \<Rightarrow> trace" where
  "native_work tr = filter (\<lambda>e. \<not> is_mutex e) tr"

definition free_call :: "dpiObject \<Rightarrow> pointer \<Rightarrow> bool \<Rightarrow> call" where
  "free_call obj p checkError =
     Call ''dpiOci__objectFree'' [P (handle (env obj)), P p, B checkError]"

fun is_free_of :: "pointer \<Rightarrow> call \<times> bool \<Rightarrow> bool" where
  "is_free_of p (Call fn args, ok) =
     (ok \<and> fn = ''dpiOci__objectFree'' \<and> length args = 3 \<and> args ! 1 = P p)"

definition frees :: "pointer \<Rightarrow> trace \<Rightarrow> nat" where
  "frees p tr = length (filter (is_free_of p) tr)"

fun is_removeHandle :: "call \<times> bool \<Rightarrow> bool" where
  "is_removeHandle (Call fn args, ok) = (fn = ''dpiHandleList__removeHandle'')"

fun is_release :: "call \<times> bool \<Rightarrow> bool" where
  "is_release (Call fn args, ok) =
     (fn = ''dpiOci__stringResize'' \<or> fn = ''dpiOci__rawResize''
      \<or> fn = ''dpiOci__descriptorFree'' \<or> fn = ''dpiGen__setRefCount'')"

text \<open>The calls of the validation steps and of the epilogue of a public function.\<close>

fun is_validation :: "call \<times> bool \<Rightarrow> bool" where
  "is_validation (Call fn args, ok) =
     (fn = ''dpiGen__startPublicFn'' \<or> fn = ''dpiConn__checkConnected''
      \<or> fn = ''dpiGen__checkHandle'' \<or> fn = ''dpiGen__endPublicFn'')"

definition releases :: "trace \<Rightarrow> call list" where
  "releases tr = map fst (filter is_release tr)"

text \<open>The trace at which \<open>dpiObject__close\<close> has taken and released the mutex once.\<close>

definition locked :: "native \<Rightarrow> dpiObject \<Rightarrow> trace \<Rightarrow> trace" where
  "locked nv obj tr =
     mutex_guard nv obj ''dpiMutex__release'' (mutex_guard nv obj ''dpiMutex__acquire'' tr)"

text \<open>
  A sequence of close calls on one object, one per \<open>checkError\<close> argument: the statuses,
  the object and the trace at the end.
\<close>

fun close_seq ::
  "native \<Rightarrow> dpiObject \<Rightarrow> bool list \<Rightarrow> trace \<Rightarrow> status list \<times> dpiObject \<times> trace" where
  "close_seq nv obj [] tr = ([], obj, tr)"
| "close_seq nv obj (checkError # rest) tr =
     (case dpiObject__close nv obj checkError tr of
        (st, obj1, tr1) \<Rightarrow>
          (case close_seq nv obj1 rest tr1 of
             (sts, obj2, tr2) \<Rightarrow> (st # sts, obj2, tr2)))"


definition unhandled_conversion ::
  "string \<Rightarrow> dpiOracleTypeNum \<Rightarrow> dpiNativeTypeNum \<Rightarrow> status" where
  "unhandled_conversion action ot nt =
     Inl (DpiError action (DPI_ERR_UNHANDLED_CONVERSION ot nt))"


definition wrong_attr_error :: "string \<Rightarrow> dpiObjectAttr \<Rightarrow> dpiObject \<Rightarrow> status" where
  "wrong_attr_error action attr obj =
     Inl (DpiError action
            (DPI_ERR_WRONG_ATTR (attr_name attr) (schema (type obj)) (name (type obj))))"

definition checkHandle_call :: "string \<Rightarrow> dpiObjectAttr \<Rightarrow> call" where
  "checkHandle_call action attr =
     Call ''dpiGen__checkHandle'' [Attr attr, S ''DPI_HTYPE_OBJECT_ATTR'', S action]"

definition tableSize_call :: "dpiObject \<Rightarrow> call" where
  "tableSize_call obj = Call ''dpiOci__tableSize'' [Obj obj]"

definition converted ::
  "native \<Rightarrow> dpiObject \<Rightarrow> dpiDataTypeInfo \<Rightarrow> dpiNativeTypeNum \<Rightarrow> dpiData \<Rightarrow> trace \<Rightarrow> scratch" where
  "converted nv obj info nt d tr =
     fst (snd (dpiObject__toOracleValue nv obj info buf_uninit None nt d tr))"

definition clear_calls :: "native \<Rightarrow> dpiObject \<Rightarrow> dpiDataTypeInfo \<Rightarrow> scratch \<Rightarrow> call list" where
  "clear_calls nv obj info out =
     releases (dpiObject__clearOracleValue nv obj (buffer out) (lob out) (oracleTypeNum info) [])"

definition is_lob_type :: "dpiOracleTypeNum \<Rightarrow> bool" where
  "is_lob_type t =
     (t = DPI_ORACLE_TYPE_CLOB \<or> t = DPI_ORACLE_TYPE_NCLOB \<or> t = DPI_ORACLE_TYPE_BLOB
      \<or> t = DPI_ORACLE_TYPE_BFILE)"

definition lob_allocate_call :: "dpiObject \<Rightarrow> dpiDataTypeInfo \<Rightarrow> call" where
  "lob_allocate_call obj info =
     Call ''dpiLob__allocate'' [Conn (conn (type obj)), Tag (oracleTypeNum info)]"

definition release_lob :: "dpiLob \<Rightarrow> call" where
  "release_lob l = Call ''dpiGen__setRefCount'' [Lob l, I (- 1)]"

section \<open>Example values\<close>

text \<open>
  An environment, a connection, the object types \<open>HR.PERSON\<close> and \<open>HR.ADDRESS\<close>, a
  collection type of CLOBs, objects of these types, and collaborators whose calls succeed
  or fail as a given function says.
\<close>

definition env0 :: dpiEnv where
  "env0 = \<lparr>threaded = True, handle = Ptr 1, encoding = ''UTF-8'', nencoding = ''UTF-16''\<rparr>"

definition conn0 :: dpiConn where
  "conn0 = \<lparr>conn_closing = False, objects = Ptr 2\<rparr>"

definition PERSON :: dpiObjectType where
  "PERSON = DpiObjectType env0 conn0 (Ptr 10) ''HR'' ''PERSON'' False
              (DpiDataTypeInfo DPI_ORACLE_TYPE_ZERO 0 None)"

definition ADDRESS :: dpiObjectType where
  "ADDRESS = DpiObjectType env0 conn0 (Ptr 11) ''HR'' ''ADDRESS'' False
               (DpiDataTypeInfo DPI_ORACLE_TYPE_ZERO 0 None)"

definition CLOB_LIST :: dpiObjectType where
  "CLOB_LIST = DpiObjectType env0 conn0 (Ptr 12) ''HR'' ''CLOB_LIST'' True
                 (DpiDataTypeInfo DPI_ORACLE_TYPE_CLOB 112 None)"

definition person :: dpiObject where
  "person = \<lparr>objAddr = 100, env = env0, type = PERSON, openSlotNum = 7,
              instance' = Ptr 20, indicator = Ptr 21, dependsOnObj = NULL,
              freeIndicator = True, closing = False\<rparr>"

definition clob_list :: dpiObject where
  "clob_list = \<lparr>objAddr = 110, env = env0, type = CLOB_LIST, openSlotNum = 8,
                 instance' = Ptr 30, indicator = Ptr 31, dependsOnObj = NULL,
                 freeIndicator = False, closing = False\<rparr>"

definition NAME :: dpiObjectAttr where
  "NAME = \<lparr>attr_name = ''NAME'', belongsToType = PERSON,
            typeInfo = DpiDataTypeInfo DPI_ORACLE_TYPE_VARCHAR 9 None\<rparr>"

definition STREET :: dpiObjectAttr where
  "STREET = \<lparr>attr_name = ''STREET'', belongsToType = ADDRESS,
              typeInfo = DpiDataTypeInfo DPI_ORACLE_TYPE_VARCHAR 9 None\<rparr>"

definition old_lob :: dpiLob where
  "old_lob = \<lparr>lobAddr = 300, locator = Ptr 301\<rparr>"

definition new_lob :: dpiLob where
  "new_lob = \<lparr>lobAddr = 310, locator = Ptr 311\<rparr>"

definition ada_value :: dpiDataBuffer where
  "ada_value = \<lparr>asBoolean = False, asInt64 = 0, asUint64 = 0, asFloat = 0, asDouble = 0,
                 asBytes = \<lparr>ptr = Ptr 400, length' = 3, bytes_encoding = None\<rparr>,
                 asTimestamp = 0, asObject = person, asLOB = old_lob\<rparr>"

definition ada :: dpiData where
  "ada = \<lparr>isNull = False, value' = ada_value\<rparr>"

definition native_value0 :: dpiOracleData where
  "native_value0 = \<lparr>ora_asRaw = Ptr 600, ora_asString = Ptr 601, ora_asRawData = Ptr 602,
                     ora_asInt32 = 0, ora_asFloat = 0, ora_asDouble = 0,
                     ora_asTimestamp = Ptr 603, ora_asBoolean = False,
                     ora_asLobLocator = Ptr 604, ora_asCollection = Ptr 605\<rparr>"

definition native_with :: "(trace \<Rightarrow> call \<Rightarrow> bool) \<Rightarrow> native" where
  "native_with st =
     \<lparr>status = st, outPtr = (\<lambda>tr c. Ptr 500), outInt = (\<lambda>tr c. 0),
      outData = (\<lambda>tr c. ada_value), outCode = (\<lambda>tr c. 0),
      outIndicator = (\<lambda>tr c. DPI_OCI_IND_NOTNULL),
      outObject = (\<lambda>tr c. person\<lparr>objAddr := 120, instance' := NULL, indicator := NULL\<rparr>),
      outLob = (\<lambda>tr c. new_lob), outValue = (\<lambda>tr c. native_value0),
      float_of_double = ucast\<rparr>"

definition native_ok :: native where
  "native_ok = native_with (\<lambda>tr c. True)"

definition native_failing :: "string \<Rightarrow> native" where
  "native_failing fn = native_with (\<lambda>tr c. call_name c \<noteq> fn)"

definition empty_list :: native where
  "empty_list = native_ok"

definition three_clobs :: native where
  "three_clobs = native_ok\<lparr>outInt := (\<lambda>tr c. if call_name c = ''dpiOci__tableSize'' then 3 else 0)\<rparr>"

section \<open>Closing: one call\<close>

lemma native_work_mutex_guard [simp]:
  "fn = ''dpiMutex__acquire'' \<or> fn = ''dpiMutex__release'' \<Longrightarrow>
   native_work (mutex_guard nv obj fn tr) = native_work tr"
  by (auto simp: native_work_def mutex_guard_def invoke_def)

lemma frees_mutex_guard [simp]:
  "fn = ''dpiMutex__acquire'' \<or> fn = ''dpiMutex__release'' \<Longrightarrow>
   frees p (mutex_guard nv obj fn tr) = frees p tr"
  by (auto simp: frees_def mutex_guard_def invoke_def)

lemma mutex_guard_closing [simp]:
  "mutex_guard nv (obj\<lparr>closing := b\<rparr>) fn tr = mutex_guard nv obj fn tr"
  by (simp add: mutex_guard_def)

lemma new_events_append [simp]: "new_events tr (tr @ xs) = xs"
  by (simp add: new_events_def)

lemma new_events_append2 [simp]: "new_events (tr @ xs) (tr @ xs @ ys) = ys"
  by (simp add: new_events_def)

lemma new_events_self [simp]: "new_events tr tr = []"
  by (simp add: new_events_def)

lemma native_work_append [simp]: "native_work (xs @ ys) = native_work xs @ native_work ys"
  by (simp add: native_work_def)

lemma closeHelper_inst_fail:
  assumes "\<not> status nv tr (free_call obj (instance' obj) checkError)"
  shows "dpiObject__closeHelper nv obj checkError tr =
    (Inl (NativeError (free_call obj (instance' obj) checkError)), obj,
     tr @ [(free_call obj (instance' obj) checkError, False)])"
  using assms by (simp add: dpiObject__closeHelper_def Let_def invoke_def free_call_def)

lemma closeHelper_ind_fail:
  assumes "status nv tr (free_call obj (instance' obj) checkError)" "freeIndicator obj"
    "\<not> status nv (tr @ [(free_call obj (instance' obj) checkError, True)])
         (free_call obj (indicator obj) checkError)"
  shows "dpiObject__closeHelper nv obj checkError tr =
    (Inl (NativeError (free_call obj (indicator obj) checkError)), obj\<lparr>instance' := NULL\<rparr>,
     tr @ [(free_call obj (instance' obj) checkError, True),
           (free_call obj (indicator obj) checkError, False)])"
  using assms by (simp add: dpiObject__closeHelper_def Let_def invoke_def free_call_def)

lemma closeHelper_ok:
  assumes "status nv tr (free_call obj (instance' obj) checkError)"
    "freeIndicator obj \<longrightarrow> status nv (tr @ [(free_call obj (instance' obj) checkError, True)])
         (free_call obj (indicator obj) checkError)"
  shows "\<exists>rm. dpiObject__closeHelper nv obj checkError tr =
    (Inr (), obj\<lparr>instance' := NULL, indicator := NULL\<rparr>,
     tr @ (free_call obj (instance' obj) checkError, True) #
       (if freeIndicator obj then [(free_call obj (indicator obj) checkError, True)] else []) @ rm)
     \<and> (\<forall>e \<in> set rm. is_removeHandle e)"
  using assms by (simp add: dpiObject__closeHelper_def Let_def invoke_def free_call_def)

lemma locked_extends: "\<exists>ms. locked nv obj tr = tr @ ms \<and> native_work ms = []"
  by (auto simp: locked_def mutex_guard_def invoke_def native_work_def)

lemma locked_closing [simp]: "locked nv (obj\<lparr>closing := b\<rparr>) tr = locked nv obj tr"
  by (simp add: locked_def)

lemma locked_instance [simp]: "locked nv (obj\<lparr>instance' := p\<rparr>) tr = locked nv obj tr"
  by (simp add: locked_def mutex_guard_def)

lemma free_call_closing [simp]:
  "free_call (obj\<lparr>closing := b\<rparr>) p checkError = free_call obj p checkError"
  by (simp add: free_call_def)

lemma close_unfold:
  "dpiObject__close nv obj checkError tr =
    (if closing obj then (Inr (), obj\<lparr>closing := True\<rparr>, locked nv obj tr)
     else if instance' obj \<noteq> NULL \<and> dependsOnObj obj = NULL then
       (case dpiObject__closeHelper nv (obj\<lparr>closing := True\<rparr>) checkError (locked nv obj tr) of
          (Inl e, obj2, tr3) \<Rightarrow> (Inl e, obj2\<lparr>closing := False\<rparr>, locked nv obj2 tr3)
        | (Inr u, obj2, tr3) \<Rightarrow> (Inr (), obj2, tr3))
     else (Inr (), obj\<lparr>closing := True\<rparr>, locked nv obj tr))"
  by (simp add: dpiObject__close_def Let_def locked_def mutex_guard_def split: prod.splits sum.splits)

lemma close_idle:
  assumes "closing obj \<or> instance' obj = NULL \<or> dependsOnObj obj \<noteq> NULL"
  shows "\<exists>ms. dpiObject__close nv obj checkError tr = (Inr (), obj\<lparr>closing := True\<rparr>, tr @ ms)
           \<and> native_work ms = []"
  using assms locked_extends [of nv obj tr] by (auto simp: close_unfold)

lemma native_work_Nil [simp]: "native_work [] = []"
  by (simp add: native_work_def)

lemma native_work_Cons [simp]:
  "native_work (e # xs) = (if is_mutex e then native_work xs else e # native_work xs)"
  by (simp add: native_work_def)

lemma is_mutex_free_call [simp]: "\<not> is_mutex (free_call obj p checkError, ok)"
  by (simp add: free_call_def)

lemma reopen [simp]: "\<not> closing obj \<Longrightarrow> obj\<lparr>closing := False\<rparr> = obj"
  by simp

lemma close_inst_fail:
  assumes "\<not> closing obj" "instance' obj \<noteq> NULL" "dependsOnObj obj = NULL"
    and "\<not> status nv (locked nv obj tr) (free_call obj (instance' obj) checkError)"
  shows "\<exists>xs. dpiObject__close nv obj checkError tr =
           (Inl (NativeError (free_call obj (instance' obj) checkError)), obj, tr @ xs)
         \<and> native_work xs = [(free_call obj (instance' obj) checkError, False)]"
proof -
  let ?c1 = "free_call obj (instance' obj) checkError"
  let ?L = "locked nv obj tr"
  obtain ms where ms: "?L = tr @ ms" "native_work ms = []"
    using locked_extends by blast
  obtain ms' where ms': "locked nv obj (?L @ [(?c1, False)]) = (?L @ [(?c1, False)]) @ ms'"
       "native_work ms' = []"
    using locked_extends by blast
  have h: "dpiObject__closeHelper nv (obj\<lparr>closing := True\<rparr>) checkError ?L =
    (Inl (NativeError ?c1), obj\<lparr>closing := True\<rparr>, ?L @ [(?c1, False)])"
    using closeHelper_inst_fail [of nv "?L" "obj\<lparr>closing := True\<rparr>" checkError] assms(4)
    by simp
  have c: "dpiObject__close nv obj checkError tr =
      (Inl (NativeError ?c1), obj, locked nv obj (?L @ [(?c1, False)]))"
    using assms(1-3) by (simp add: close_unfold h)
  have t: "locked nv obj (?L @ [(?c1, False)]) = tr @ (ms @ [(?c1, False)] @ ms')"
    unfolding ms' unfolding ms by simp
  have nw: "native_work (ms @ [(?c1, False)] @ ms') = [(?c1, False)]"
    using ms(2) ms'(2) by simp
  show ?thesis using c [unfolded t] nw by blast
qed

lemma close_ind_fail:
  assumes "\<not> closing obj" "instance' obj \<noteq> NULL" "dependsOnObj obj = NULL"
    and "status nv (locked nv obj tr) (free_call obj (instance' obj) checkError)"
    and "freeIndicator obj"
    and "\<not> status nv (locked nv obj tr @ [(free_call obj (instance' obj) checkError, True)])
           (free_call obj (indicator obj) checkError)"
  shows "\<exists>xs. dpiObject__close nv obj checkError tr =
           (Inl (NativeError (free_call obj (indicator obj) checkError)), obj\<lparr>instance' := NULL\<rparr>, tr @ xs)
         \<and> native_work xs = [(free_call obj (instance' obj) checkError, True),
                              (free_call obj (indicator obj) checkError, False)]"
proof -
  let ?c1 = "free_call obj (instance' obj) checkError"
  let ?c2 = "free_call obj (indicator obj) checkError"
  let ?L = "locked nv obj tr"
  let ?ev = "[(?c1, True), (?c2, False)]"
  obtain ms where ms: "?L = tr @ ms" "native_work ms = []"
    using locked_extends by blast
  obtain ms' where ms': "locked nv obj (?L @ ?ev) = (?L @ ?ev) @ ms'" "native_work ms' = []"
    using locked_extends by blast
  have h: "dpiObject__closeHelper nv (obj\<lparr>closing := True\<rparr>) checkError ?L =
    (Inl (NativeError ?c2), obj\<lparr>closing := True, instance' := NULL\<rparr>, ?L @ ?ev)"
    using closeHelper_ind_fail [of nv "?L" "obj\<lparr>closing := True\<rparr>" checkError] assms(4-6)
    by simp
  have e: "obj\<lparr>closing := True, instance' := NULL, closing := False\<rparr> = obj\<lparr>instance' := NULL\<rparr>"
    using assms(1) by (cases obj) simp
  have c: "dpiObject__close nv obj checkError tr =
      (Inl (NativeError ?c2), obj\<lparr>instance' := NULL\<rparr>, locked nv obj (?L @ ?ev))"
    using assms(1-3) by (simp add: close_unfold h e)
  have t: "locked nv obj (?L @ ?ev) = tr @ (ms @ ?ev @ ms')"
    unfolding ms' unfolding ms by simp
  have nw: "native_work (ms @ ?ev @ ms') = ?ev"
    using ms(2) ms'(2) by simp
  show ?thesis using c [unfolded t] nw by blast
qed

lemma close_ok:
  assumes "\<not> closing obj" "instance' obj \<noteq> NULL" "dependsOnObj obj = NULL"
    and "status nv (locked nv obj tr) (free_call obj (instance' obj) checkError)"
    and "freeIndicator obj \<longrightarrow>
           status nv (locked nv obj tr @ [(free_call obj (instance' obj) checkError, True)])
           (free_call obj (indicator obj) checkError)"
  shows "\<exists>xs rm. dpiObject__close nv obj checkError tr =
           (Inr (), obj\<lparr>closing := True, instance' := NULL, indicator := NULL\<rparr>, tr @ xs)
         \<and> native_work xs = (free_call obj (instance' obj) checkError, True) #
             (if freeIndicator obj then [(free_call obj (indicator obj) checkError, True)] else []) @ rm
         \<and> (\<forall>e \<in> set rm. is_removeHandle e)"
proof -
  let ?c1 = "free_call obj (instance' obj) checkError"
  let ?c2 = "free_call obj (indicator obj) checkError"
  let ?L = "locked nv obj tr"
  let ?ev = "(?c1, True) # (if freeIndicator obj then [(?c2, True)] else [])"
  obtain ms where ms: "?L = tr @ ms" "native_work ms = []"
    using locked_extends by blast
  obtain rm where h: "dpiObject__closeHelper nv (obj\<lparr>closing := True\<rparr>) checkError ?L =
    (Inr (), obj\<lparr>closing := True, instance' := NULL, indicator := NULL\<rparr>, ?L @ ?ev @ rm)"
    and rm: "\<forall>e \<in> set rm. is_removeHandle e"
    using closeHelper_ok [of nv "?L" "obj\<lparr>closing := True\<rparr>" checkError] assms(4-5)
    by auto
  have "\<forall>e \<in> set rm. \<not> is_mutex e"
    using rm by (auto elim!: is_removeHandle.elims)
  then have nrm: "native_work rm = rm"
    by (simp add: native_work_def)
  have c: "dpiObject__close nv obj checkError tr =
      (Inr (), obj\<lparr>closing := True, instance' := NULL, indicator := NULL\<rparr>, ?L @ ?ev @ rm)"
    using assms(1-3) by (simp add: close_unfold h)
  have t: "?L @ ?ev @ rm = tr @ (ms @ ?ev @ rm)"
    unfolding ms by simp
  have nw: "native_work (ms @ ?ev @ rm) = ?ev @ rm"
    using ms(2) nrm by simp
  have c': "dpiObject__close nv obj checkError tr =
      (Inr (), obj\<lparr>closing := True, instance' := NULL, indicator := NULL\<rparr>, tr @ (ms @ ?ev @ rm))"
    unfolding c t ..
  show ?thesis
    by (rule exI [of _ "ms @ ?ev @ rm"], rule exI [of _ rm]) (use c' nw rm in simp)
qed

lemma is_free_of_free_call [simp]:
  "is_free_of p (free_call obj q checkError, ok) = (ok \<and> q = p)"
  by (auto simp: free_call_def)

lemma frees_Nil [simp]: "frees p [] = 0"
  by (simp add: frees_def)

lemma frees_Cons [simp]: "frees p (e # xs) = (if is_free_of p e then 1 else 0) + frees p xs"
  by (simp add: frees_def)

lemma frees_append [simp]: "frees p (xs @ ys) = frees p xs + frees p ys"
  by (simp add: frees_def)

lemma frees_native_work: "frees p (native_work xs) = frees p xs"
proof (induction xs)
  case Nil
  show ?case by simp
next
  case (Cons e xs)
  obtain fn args ok where e: "e = (Call fn args, ok)"
    by (metis call.exhaust surj_pair)
  show ?case using Cons by (simp add: e)
qed

lemma frees_removeHandle: "\<forall>e \<in> set rm. is_removeHandle e \<Longrightarrow> frees p rm = 0"
proof (induction rm)
  case Nil
  show ?case by simp
next
  case (Cons e rm)
  obtain fn args ok where e: "e = (Call fn args, ok)"
    by (metis call.exhaust surj_pair)
  show ?case using Cons by (simp add: e)
qed

text \<open>One close call: which fields it leaves alone and how many frees it adds.\<close>

lemma close_step:
  obtains (idle) ms where
      "closing obj \<or> instance' obj = NULL \<or> dependsOnObj obj \<noteq> NULL"
      "dpiObject__close nv obj checkError tr = (Inr (), obj\<lparr>closing := True\<rparr>, tr @ ms)"
      "native_work ms = []"
  | (inst_fail) xs where
      "\<not> closing obj" "instance' obj \<noteq> NULL" "dependsOnObj obj = NULL"
      "dpiObject__close nv obj checkError tr =
         (Inl (NativeError (free_call obj (instance' obj) checkError)), obj, tr @ xs)"
      "native_work xs = [(free_call obj (instance' obj) checkError, False)]"
  | (ind_fail) xs where
      "\<not> closing obj" "instance' obj \<noteq> NULL" "dependsOnObj obj = NULL" "freeIndicator obj"
      "dpiObject__close nv obj checkError tr =
         (Inl (NativeError (free_call obj (indicator obj) checkError)), obj\<lparr>instance' := NULL\<rparr>, tr @ xs)"
      "native_work xs = [(free_call obj (instance' obj) checkError, True),
                         (free_call obj (indicator obj) checkError, False)]"
  | (ok) xs rm where
      "\<not> closing obj" "instance' obj \<noteq> NULL" "dependsOnObj obj = NULL"
      "dpiObject__close nv obj checkError tr =
         (Inr (), obj\<lparr>closing := True, instance' := NULL, indicator := NULL\<rparr>, tr @ xs)"
      "native_work xs = (free_call obj (instance' obj) checkError, True) #
          (if freeIndicator obj then [(free_call obj (indicator obj) checkError, True)] else []) @ rm"
      "\<forall>e \<in> set rm. is_removeHandle e"
proof (cases "closing obj \<or> instance' obj = NULL \<or> dependsOnObj obj \<noteq> NULL")
  case True
  then show ?thesis using close_idle [where obj = obj and nv = nv and checkError = checkError and tr = tr] idle by blast
next
  case owner: False
  show ?thesis
  proof (cases "status nv (locked nv obj tr) (free_call obj (instance' obj) checkError)")
    case False
    then show ?thesis using owner close_inst_fail [where obj = obj and nv = nv and checkError = checkError and tr = tr] inst_fail by blast
  next
    case s1: True
    show ?thesis
    proof (cases "freeIndicator obj \<longrightarrow>
           status nv (locked nv obj tr @ [(free_call obj (instance' obj) checkError, True)])
           (free_call obj (indicator obj) checkError)")
      case True
      then show ?thesis using owner s1 close_ok [where obj = obj and nv = nv and checkError = checkError and tr = tr] ok by blast
    next
      case False
      then show ?thesis using owner s1 close_ind_fail [where obj = obj and nv = nv and checkError = checkError and tr = tr] ind_fail by blast
    qed
  qed
qed

lemma close_seq_settled:
  assumes "closing obj \<or> instance' obj = NULL \<or> dependsOnObj obj \<noteq> NULL"
  shows "(\<forall>st \<in> set (fst (close_seq nv obj cs tr)). st = Inr ())
       \<and> fst (snd (close_seq nv obj cs tr)) = (if cs = [] then obj else obj\<lparr>closing := True\<rparr>)
       \<and> native_work (snd (snd (close_seq nv obj cs tr))) = native_work tr"
  using assms
proof (induction cs arbitrary: obj tr)
  case Nil
  show ?case by simp
next
  case (Cons c cs)
  obtain ms where c: "dpiObject__close nv obj c tr = (Inr (), obj\<lparr>closing := True\<rparr>, tr @ ms)"
      and ms: "native_work ms = []"
    using close_idle [OF Cons.prems] by blast
  have ih: "(\<forall>st \<in> set (fst (close_seq nv (obj\<lparr>closing := True\<rparr>) cs (tr @ ms))). st = Inr ())
       \<and> fst (snd (close_seq nv (obj\<lparr>closing := True\<rparr>) cs (tr @ ms))) =
           (if cs = [] then obj\<lparr>closing := True\<rparr> else obj\<lparr>closing := True, closing := True\<rparr>)
       \<and> native_work (snd (snd (close_seq nv (obj\<lparr>closing := True\<rparr>) cs (tr @ ms)))) = native_work (tr @ ms)"
    by (rule Cons.IH) simp
  show ?case using ih ms by (simp add: c case_prod_beta)
qed

lemma close_seq_frees:
  assumes "indicator obj \<noteq> instance' obj"
  shows "frees p (snd (snd (close_seq nv obj cs tr))) \<le> frees p tr + 1"
  using assms
proof (induction cs arbitrary: obj tr)
  case Nil
  show ?case by simp
next
  case (Cons c cs)
  have settled: "frees p (snd (snd (close_seq nv obj1 cs tr1))) = frees p tr1"
    if "closing obj1 \<or> instance' obj1 = NULL \<or> dependsOnObj obj1 \<noteq> NULL" for obj1 tr1
    using close_seq_settled [OF that, where nv = nv and cs = cs and tr = tr1] frees_native_work by metis
  show ?case
  proof (cases rule: close_step [where obj = obj and nv = nv and checkError = c and tr = tr])
    case (idle ms)
    have "frees p ms = 0" using idle(3) frees_native_work [of p ms] by simp
    moreover have "frees p (snd (snd (close_seq nv (obj\<lparr>closing := True\<rparr>) cs (tr @ ms)))) \<le> frees p (tr @ ms) + 1"
      by (rule Cons.IH) (use Cons.prems in simp)
    ultimately show ?thesis by (simp add: idle(2) case_prod_beta)
  next
    case (inst_fail xs)
    have "frees p xs = 0" using inst_fail(5) frees_native_work [of p xs] by simp
    moreover have "frees p (snd (snd (close_seq nv obj cs (tr @ xs)))) \<le> frees p (tr @ xs) + 1"
      by (rule Cons.IH) (use Cons.prems in simp)
    ultimately show ?thesis by (simp add: inst_fail(4) case_prod_beta)
  next
    case (ind_fail xs)
    have "frees p xs \<le> 1" using ind_fail(6) frees_native_work [of p xs] by (auto split: if_splits)
    moreover have "frees p (snd (snd (close_seq nv (obj\<lparr>instance' := NULL\<rparr>) cs (tr @ xs)))) = frees p (tr @ xs)"
      by (rule settled) simp
    ultimately show ?thesis by (simp add: ind_fail(5) case_prod_beta)
  next
    case (ok xs rm)
    have "frees p xs \<le> 1"
      using ok(5) frees_native_work [of p xs] frees_removeHandle [OF ok(6), of p] Cons.prems
      by (auto split: if_splits)
    moreover have "frees p (snd (snd (close_seq nv (obj\<lparr>closing := True, instance' := NULL, indicator := NULL\<rparr>) cs (tr @ xs)))) = frees p (tr @ xs)"
      by (rule settled) simp
    ultimately show ?thesis by (simp add: ok(4) case_prod_beta)
  qed
qed

lemma mem_native_work: "e \<in> set xs \<Longrightarrow> \<not> is_mutex e \<Longrightarrow> e \<in> set (native_work xs)"
  by (simp add: native_work_def)

lemma not_mutex_objectFree: "call_name c = ''dpiOci__objectFree'' \<Longrightarrow> \<not> is_mutex (c, ok)"
  by (cases c) simp

lemma not_removeHandle_objectFree:
  "call_name c = ''dpiOci__objectFree'' \<Longrightarrow> \<not> is_removeHandle (c, ok)"
  by (cases c) simp

lemma call_name_free_call [simp]: "call_name (free_call obj p checkError) = ''dpiOci__objectFree''"
  by (simp add: free_call_def)

lemma free_call_instance [simp]:
  "free_call (obj\<lparr>instance' := q\<rparr>) p checkError = free_call obj p checkError"
  by (simp add: free_call_def)

text \<open>
  C1. Once the closing flag of an object is set, a close call returns success, leaves the
  object as it is and makes no native call beyond taking the mutex; so does every close
  call of any sequence that follows. And over any sequence of close calls, on any object
  whose indicator is not the instance pointer itself, at most one
  \<open>dpiOci__objectFree\<close> of the instance succeeds.
\<close>

theorem close_idempotent:
  "(closing obj \<longrightarrow>
      fst (dpiObject__close nv obj checkError tr) = Inr ()
    \<and> fst (snd (dpiObject__close nv obj checkError tr)) = obj
    \<and> native_work (snd (snd (dpiObject__close nv obj checkError tr))) = native_work tr
    \<and> (\<forall>st \<in> set (fst (close_seq nv obj cs tr)). st = Inr ())
    \<and> fst (snd (close_seq nv obj cs tr)) = obj
    \<and> native_work (snd (snd (close_seq nv obj cs tr))) = native_work tr)
   \<and> (indicator obj \<noteq> instance' obj \<longrightarrow>
        frees (instance' obj) (snd (snd (close_seq nv obj cs tr))) \<le> frees (instance' obj) tr + 1)"
proof (intro conjI impI)
  assume cl: "closing obj"
  then have e: "obj\<lparr>closing := True\<rparr> = obj" by simp
  obtain ms where c: "dpiObject__close nv obj checkError tr = (Inr (), obj, tr @ ms)"
      and ms: "native_work ms = []"
    using close_idle [where obj = obj and nv = nv and checkError = checkError and tr = tr] cl e by auto
  show "fst (dpiObject__close nv obj checkError tr) = Inr ()"
    by (simp add: c)
  show "fst (snd (dpiObject__close nv obj checkError tr)) = obj"
    by (simp add: c)
  show "native_work (snd (snd (dpiObject__close nv obj checkError tr))) = native_work tr"
    by (simp add: c ms)
  show "\<forall>st \<in> set (fst (close_seq nv obj cs tr)). st = Inr ()"
    using close_seq_settled [where obj = obj and nv = nv and cs = cs and tr = tr] cl by blast
  show "fst (snd (close_seq nv obj cs tr)) = obj"
    using close_seq_settled [where obj = obj and nv = nv and cs = cs and tr = tr] cl e by auto
  show "native_work (snd (snd (close_seq nv obj cs tr))) = native_work tr"
    using close_seq_settled [where obj = obj and nv = nv and cs = cs and tr = tr] cl by blast
next
  assume "indicator obj \<noteq> instance' obj"
  then show "frees (instance' obj) (snd (snd (close_seq nv obj cs tr))) \<le> frees (instance' obj) tr + 1"
    by (rule close_seq_frees)
qed

theorem close_idempotent_witness:
  "closing (person\<lparr>closing := True\<rparr>) \<and> indicator person \<noteq> instance' person
   \<and> fst (dpiObject__close native_ok (person\<lparr>closing := True\<rparr>) False []) = Inr ()
   \<and> fst (snd (close_seq native_ok (person\<lparr>closing := True\<rparr>) [False, True] []))
       = person\<lparr>closing := True\<rparr>
   \<and> native_work (snd (snd (close_seq native_ok (person\<lparr>closing := True\<rparr>) [False, True] []))) = []
   \<and> frees (instance' person) (snd (snd (close_seq native_ok person [True, True, False] []))) \<le> 1"
  using close_idempotent [where obj = "person\<lparr>closing := True\<rparr>" and nv = native_ok
           and checkError = False and tr = "[]" and cs = "[False, True]"]
        close_idempotent [where obj = person and nv = native_ok
           and checkError = False and tr = "[]" and cs = "[True, True, False]"]
  by (simp add: person_def)

text \<open>
  C7 as amended. When a \<open>dpiOci__objectFree\<close> call made by a close call fails, the
  object is a top-level one with a live handle whose flag was not set, the close call
  returns the failure of that call, and the closing flag is reset. When the free of the
  instance has not succeeded in that call, the failed call is the free of the instance,
  the object is left exactly as it was, instance handle included, and the next close call
  calls \<open>dpiOci__objectFree\<close> on the instance again.
\<close>

theorem close_failure_reopens:
  assumes "(c, False) \<in> set (new_events tr (snd (snd (dpiObject__close nv obj checkError tr))))"
      and "call_name c = ''dpiOci__objectFree''"
  shows "fst (dpiObject__close nv obj checkError tr) = Inl (NativeError c)
       \<and> \<not> closing (fst (snd (dpiObject__close nv obj checkError tr)))
       \<and> \<not> closing obj \<and> instance' obj \<noteq> NULL \<and> dependsOnObj obj = NULL
       \<and> ((free_call obj (instance' obj) checkError, True)
             \<notin> set (new_events tr (snd (snd (dpiObject__close nv obj checkError tr)))) \<longrightarrow>
            c = free_call obj (instance' obj) checkError
            \<and> fst (snd (dpiObject__close nv obj checkError tr)) = obj
            \<and> (\<exists>ok. (free_call obj (instance' obj) checkError', ok)
               \<in> set (new_events (snd (snd (dpiObject__close nv obj checkError tr)))
                     (snd (snd (dpiObject__close nv obj checkError'
                        (snd (snd (dpiObject__close nv obj checkError tr)))))))))"
proof (cases rule: close_step [where obj = obj and nv = nv and checkError = checkError and tr = tr])
  case (idle ms)
  have "(c, False) \<in> set ms" using assms(1) by (simp add: idle(2))
  then have "(c, False) \<in> set (native_work ms)"
    using not_mutex_objectFree [OF assms(2)] by (rule mem_native_work)
  then show ?thesis by (simp add: idle(3))
next
  case (inst_fail xs)
  have "(c, False) \<in> set xs" using assms(1) by (simp add: inst_fail(4))
  then have "(c, False) \<in> set (native_work xs)"
    using not_mutex_objectFree [OF assms(2)] by (rule mem_native_work)
  then have c: "c = free_call obj (instance' obj) checkError" by (simp add: inst_fail(5))
  have retry: "\<exists>ok. (free_call obj (instance' obj) checkError', ok)
       \<in> set (new_events (tr @ xs) (snd (snd (dpiObject__close nv obj checkError' (tr @ xs)))))"
  proof (cases rule: close_step [where obj = obj and nv = nv and checkError = checkError' and tr = "tr @ xs"])
    case (idle ms)
    then show ?thesis using inst_fail(1-3) by simp
  next
    case (inst_fail ys)
    have "(free_call obj (instance' obj) checkError', False) \<in> set (native_work ys)"
      by (simp add: inst_fail(5))
    then have "(free_call obj (instance' obj) checkError', False) \<in> set ys"
      by (simp add: native_work_def)
    then show ?thesis by (auto simp: inst_fail(4))
  next
    case (ind_fail ys)
    have "(free_call obj (instance' obj) checkError', True) \<in> set (native_work ys)"
      by (simp add: ind_fail(6))
    then have "(free_call obj (instance' obj) checkError', True) \<in> set ys"
      by (simp add: native_work_def)
    then show ?thesis by (auto simp: ind_fail(5))
  next
    case (ok ys rm)
    have "(free_call obj (instance' obj) checkError', True) \<in> set (native_work ys)"
      by (simp add: ok(5))
    then have "(free_call obj (instance' obj) checkError', True) \<in> set ys"
      by (simp add: native_work_def)
    then show ?thesis by (auto simp: ok(4))
  qed
  show ?thesis using inst_fail(1-3) retry by (simp add: inst_fail(4) c)
next
  case (ind_fail xs)
  have "(c, False) \<in> set xs" using assms(1) by (simp add: ind_fail(5))
  then have "(c, False) \<in> set (native_work xs)"
    using not_mutex_objectFree [OF assms(2)] by (rule mem_native_work)
  then have c: "c = free_call obj (indicator obj) checkError" by (simp add: ind_fail(6))
  have "(free_call obj (instance' obj) checkError, True) \<in> set (native_work xs)"
    by (simp add: ind_fail(6))
  then have "(free_call obj (instance' obj) checkError, True) \<in> set xs"
    by (simp add: native_work_def)
  then show ?thesis using ind_fail(1-3) by (simp add: ind_fail(5) c)
next
  case (ok xs rm)
  have "(c, False) \<in> set xs" using assms(1) by (simp add: ok(4))
  then have "(c, False) \<in> set (native_work xs)"
    using not_mutex_objectFree [OF assms(2)] by (rule mem_native_work)
  then have "(c, False) \<in> set rm" by (auto simp: ok(5) split: if_splits)
  then show ?thesis using ok(6) not_removeHandle_objectFree [OF assms(2)] by blast
qed

lemmas example_defs =
  env0_def conn0_def PERSON_def ADDRESS_def CLOB_LIST_def person_def clob_list_def NAME_def
  STREET_def old_lob_def new_lob_def ada_value_def ada_def native_value0_def native_with_def
  native_ok_def native_failing_def

lemmas close_defs =
  dpiObject__close_def dpiObject__closeHelper_def mutex_guard_def invoke_def Let_def
  free_call_def new_events_def

theorem close_failure_reopens_witness:
  "(free_call person (instance' person) True, False)
     \<in> set (new_events [] (snd (snd (dpiObject__close (native_failing ''dpiOci__objectFree'') person True []))))
   \<and> call_name (free_call person (instance' person) True) = ''dpiOci__objectFree''
   \<and> (free_call person (instance' person) True, True)
     \<notin> set (new_events [] (snd (snd (dpiObject__close (native_failing ''dpiOci__objectFree'') person True []))))
   \<and> fst (dpiObject__close (native_failing ''dpiOci__objectFree'') person True [])
       = Inl (NativeError (free_call person (instance' person) True))
   \<and> \<not> closing (fst (snd (dpiObject__close (native_failing ''dpiOci__objectFree'') person True [])))
   \<and> fst (snd (dpiObject__close (native_failing ''dpiOci__objectFree'') person True [])) = person
   \<and> (free_call person (instance' person) False, False)
       \<in> set (new_events
             (snd (snd (dpiObject__close (native_failing ''dpiOci__objectFree'') person True [])))
             (snd (snd (dpiObject__close (native_failing ''dpiOci__objectFree'') person False
                (snd (snd (dpiObject__close (native_failing ''dpiOci__objectFree'') person True [])))))))"
proof -
  let ?nv = "native_failing ''dpiOci__objectFree''"
  have h: "(free_call person (instance' person) True, False)
     \<in> set (new_events [] (snd (snd (dpiObject__close ?nv person True []))))"
    by (simp add: close_defs example_defs)
  have n: "call_name (free_call person (instance' person) True) = ''dpiOci__objectFree''"
    by simp
  have g: "(free_call person (instance' person) True, True)
     \<notin> set (new_events [] (snd (snd (dpiObject__close ?nv person True []))))"
    by (simp add: close_defs example_defs)
  have r: "(free_call person (instance' person) False, False)
       \<in> set (new_events (snd (snd (dpiObject__close ?nv person True [])))
             (snd (snd (dpiObject__close ?nv person False
                (snd (snd (dpiObject__close ?nv person True [])))))))"
    by (simp add: close_defs example_defs)
  show ?thesis using h n g r close_failure_reopens [OF h n] by blast
qed

text \<open>
  C7, as the claim states it, fails. On the object \<open>person\<close>, which owns its indicator,
  with a free of the instance that succeeds and a free of the indicator that fails, the
  native free step of the close fails: the call returns the failure and the flag is
  reset. But the instance handle is \<open>NULL\<close> by then (line 212), so the close call that
  follows passes the flag, skips \<open>dpiObject__closeHelper\<close> (line 188) and returns success
  without any native call: it does not attempt the teardown again, and the indicator
  keeps its handle.
\<close>

theorem indicator_failure_not_retried:
  "(free_call person (indicator person) True, False)
     \<in> set (snd (snd (dpiObject__close
           (native_with (\<lambda>tr c. c \<noteq> free_call person (indicator person) True)) person True [])))
   \<and> dependsOnObj person = NULL \<and> instance' person = Ptr 20
   \<and> fst (dpiObject__close
           (native_with (\<lambda>tr c. c \<noteq> free_call person (indicator person) True)) person True [])
       = Inl (NativeError (free_call person (indicator person) True))
   \<and> fst (snd (dpiObject__close
           (native_with (\<lambda>tr c. c \<noteq> free_call person (indicator person) True)) person True []))
       = person\<lparr>instance' := NULL\<rparr>
   \<and> closing (person\<lparr>instance' := NULL\<rparr>) = False
   \<and> fst (dpiObject__close
           (native_with (\<lambda>tr c. c \<noteq> free_call person (indicator person) True))
           (person\<lparr>instance' := NULL\<rparr>) True
           (snd (snd (dpiObject__close
              (native_with (\<lambda>tr c. c \<noteq> free_call person (indicator person) True)) person True []))))
       = Inr ()
   \<and> native_work (new_events
         (snd (snd (dpiObject__close
            (native_with (\<lambda>tr c. c \<noteq> free_call person (indicator person) True)) person True [])))
         (snd (snd (dpiObject__close
           (native_with (\<lambda>tr c. c \<noteq> free_call person (indicator person) True))
           (person\<lparr>instance' := NULL\<rparr>) True
           (snd (snd (dpiObject__close
              (native_with (\<lambda>tr c. c \<noteq> free_call person (indicator person) True)) person True [])))))))
       = []
   \<and> indicator (fst (snd (dpiObject__close
           (native_with (\<lambda>tr c. c \<noteq> free_call person (indicator person) True))
           (person\<lparr>instance' := NULL\<rparr>) True
           (snd (snd (dpiObject__close
              (native_with (\<lambda>tr c. c \<noteq> free_call person (indicator person) True)) person True []))))))
       = Ptr 21"
  by (simp add: close_defs example_defs native_work_def)

text \<open>
  C10. When, in one close call, the free of the instance succeeds and the free of the
  indicator fails, the call returns that failure with the closing flag reset and the
  instance handle already \<open>NULL\<close>; every close call after it returns success and makes no
  native call, so the indicator stays unfreed and no \<open>dpiHandleList__removeHandle\<close>
  call is ever made.
\<close>

theorem indicator_failure_leaks:
  assumes "dpiObject__close nv obj checkError tr = (st, obj1, tr1)"
      and "(free_call obj (instance' obj) checkError, True) \<in> set (new_events tr tr1)"
      and "(free_call obj (indicator obj) checkError, False) \<in> set (new_events tr tr1)"
  shows "st = Inl (NativeError (free_call obj (indicator obj) checkError))
       \<and> obj1 = obj\<lparr>instance' := NULL\<rparr> \<and> \<not> closing obj1
       \<and> freeIndicator obj \<and> dependsOnObj obj = NULL \<and> instance' obj \<noteq> NULL
       \<and> list_all (\<lambda>s. s = Inr ()) (fst (close_seq nv obj1 cs tr1))
       \<and> native_work (snd (snd (close_seq nv obj1 cs tr1))) = native_work tr1
       \<and> indicator (fst (snd (close_seq nv obj1 cs tr1))) = indicator obj"
proof (cases rule: close_step [where obj = obj and nv = nv and checkError = checkError and tr = tr])
  case (idle ms)
  have "tr1 = tr @ ms" using assms(1) by (simp add: idle(2))
  then have "(free_call obj (instance' obj) checkError, True) \<in> set ms"
    using assms(2) by simp
  then have "(free_call obj (instance' obj) checkError, True) \<in> set (native_work ms)"
    by (rule mem_native_work) simp
  then show ?thesis by (simp add: idle(3))
next
  case (inst_fail xs)
  have "tr1 = tr @ xs" using assms(1) by (simp add: inst_fail(4))
  then have "(free_call obj (instance' obj) checkError, True) \<in> set xs"
    using assms(2) by simp
  then have "(free_call obj (instance' obj) checkError, True) \<in> set (native_work xs)"
    by (rule mem_native_work) simp
  then show ?thesis by (simp add: inst_fail(5))
next
  case (ok xs rm)
  have "tr1 = tr @ xs" using assms(1) by (simp add: ok(4))
  then have "(free_call obj (indicator obj) checkError, False) \<in> set xs"
    using assms(3) by simp
  then have "(free_call obj (indicator obj) checkError, False) \<in> set (native_work xs)"
    by (rule mem_native_work) simp
  then have "(free_call obj (indicator obj) checkError, False) \<in> set rm"
    by (auto simp: ok(5) split: if_splits)
  then show ?thesis using ok(6) not_removeHandle_objectFree by fastforce
next
  case (ind_fail xs)
  have r: "st = Inl (NativeError (free_call obj (indicator obj) checkError))"
      "obj1 = obj\<lparr>instance' := NULL\<rparr>" "tr1 = tr @ xs"
    using assms(1) by (simp_all add: ind_fail(5))
  have s: "(\<forall>st \<in> set (fst (close_seq nv obj1 cs tr1)). st = Inr ())
       \<and> fst (snd (close_seq nv obj1 cs tr1)) = (if cs = [] then obj1 else obj1\<lparr>closing := True\<rparr>)
       \<and> native_work (snd (snd (close_seq nv obj1 cs tr1))) = native_work tr1"
    by (rule close_seq_settled) (simp add: r(2))
  show ?thesis using ind_fail(1-4) r s by (simp add: list_all_iff)
qed

theorem indicator_failure_leaks_witness:
  "dpiObject__close (native_with (\<lambda>tr c. c \<noteq> free_call person (indicator person) True)) person True []
     = (Inl (NativeError (free_call person (indicator person) True)),
        person\<lparr>instance' := NULL\<rparr>,
        snd (snd (dpiObject__close (native_with (\<lambda>tr c. c \<noteq> free_call person (indicator person) True)) person True [])))
   \<and> (free_call person (instance' person) True, True)
       \<in> set (snd (snd (dpiObject__close (native_with (\<lambda>tr c. c \<noteq> free_call person (indicator person) True)) person True [])))
   \<and> (free_call person (indicator person) True, False)
       \<in> set (snd (snd (dpiObject__close (native_with (\<lambda>tr c. c \<noteq> free_call person (indicator person) True)) person True [])))
   \<and> native_work (snd (snd (close_seq (native_with (\<lambda>tr c. c \<noteq> free_call person (indicator person) True))
         (person\<lparr>instance' := NULL\<rparr>) [True, False]
         (snd (snd (dpiObject__close (native_with (\<lambda>tr c. c \<noteq> free_call person (indicator person) True)) person True [])))))) 
      = [(free_call person (instance' person) True, True), (free_call person (indicator person) True, False)]"
proof -
  let ?nv = "native_with (\<lambda>tr c. c \<noteq> free_call person (indicator person) True)"
  let ?tr1 = "snd (snd (dpiObject__close ?nv person True []))"
  have c: "dpiObject__close ?nv person True []
     = (Inl (NativeError (free_call person (indicator person) True)), person\<lparr>instance' := NULL\<rparr>, ?tr1)"
    by (simp add: close_defs example_defs)
  have nw: "native_work ?tr1 = [(free_call person (instance' person) True, True),
       (free_call person (indicator person) True, False)]"
    by (simp add: close_defs example_defs)
  have e1: "(free_call person (instance' person) True, True) \<in> set (new_events [] ?tr1)"
    by (simp add: close_defs example_defs)
  have e2: "(free_call person (indicator person) True, False) \<in> set (new_events [] ?tr1)"
    by (simp add: close_defs example_defs)
  show ?thesis
    using c e1 e2 nw indicator_failure_leaks [OF c e1 e2, where cs = "[True, False]"]
    by (simp add: new_events_def)
qed


lemma allocate_failed_Inl: "fst (allocate_failed nv e tempObj tr) \<noteq> Inr x"
  by (simp add: allocate_failed_def split: prod.splits option.splits)

lemma allocate_dependent:
  assumes "fst (dpiObject__allocate nv objType inst ind (Some parent) tr) = Inr child"
  shows "dependsOnObj child = Ptr (objAddr parent)"
  using assms allocate_failed_Inl [where nv = nv and x = child]
  by (auto simp add: dpiObject__allocate_def Let_def case_prod_beta split: if_splits)

text \<open>
  C2. Closing an object whose \<open>dependsOnObj\<close> is set returns success and makes no native
  call beyond taking the mutex; a close call that makes a native call is on an object
  with no parent, a live instance handle and the flag not set; and an object that
  \<open>dpiObject__allocate\<close> has built for a parent has \<open>dependsOnObj\<close> set to that parent.
\<close>

theorem dependent_close_frees_nothing:
  "(dependsOnObj obj \<noteq> NULL \<longrightarrow>
      fst (dpiObject__close nv obj checkError tr) = Inr ()
      \<and> native_work (snd (snd (dpiObject__close nv obj checkError tr))) = native_work tr)
   \<and> (native_work (snd (snd (dpiObject__close nv obj checkError tr))) \<noteq> native_work tr \<longrightarrow>
        dependsOnObj obj = NULL \<and> instance' obj \<noteq> NULL \<and> \<not> closing obj)
   \<and> (fst (dpiObject__allocate nv objType inst ind (Some parent) tr) = Inr obj \<longrightarrow>
        dependsOnObj obj = Ptr (objAddr parent))"
proof -
  have idle: "fst (dpiObject__close nv obj checkError tr) = Inr ()
      \<and> native_work (snd (snd (dpiObject__close nv obj checkError tr))) = native_work tr"
    if "closing obj \<or> instance' obj = NULL \<or> dependsOnObj obj \<noteq> NULL"
    using close_idle [OF that, where nv = nv and checkError = checkError and tr = tr] by auto
  show ?thesis using idle allocate_dependent by blast
qed

theorem dependent_close_frees_nothing_witness:
  "dependsOnObj (person\<lparr>dependsOnObj := Ptr 100\<rparr>) \<noteq> NULL
   \<and> fst (dpiObject__close native_ok (person\<lparr>dependsOnObj := Ptr 100\<rparr>) True []) = Inr ()
   \<and> native_work (snd (snd (dpiObject__close native_ok (person\<lparr>dependsOnObj := Ptr 100\<rparr>) True []))) = []
   \<and> native_work (snd (snd (dpiObject__close native_ok person True []))) \<noteq> native_work []
   \<and> dependsOnObj person = NULL \<and> instance' person \<noteq> NULL
   \<and> fst (dpiObject__allocate native_ok ADDRESS (Ptr 40) (Ptr 41) (Some person) [])
        = Inr (person\<lparr>objAddr := 120, type := ADDRESS, instance' := Ptr 40, indicator := Ptr 41,
                      dependsOnObj := Ptr 100\<rparr>)
   \<and> dependsOnObj (person\<lparr>objAddr := 120, type := ADDRESS, instance' := Ptr 40, indicator := Ptr 41,
                      dependsOnObj := Ptr 100\<rparr>) = Ptr (objAddr person)"
proof -
  have a: "fst (dpiObject__allocate native_ok ADDRESS (Ptr 40) (Ptr 41) (Some person) [])
        = Inr (person\<lparr>objAddr := 120, type := ADDRESS, instance' := Ptr 40, indicator := Ptr 41,
                      dependsOnObj := Ptr 100\<rparr>)"
    by (simp add: dpiObject__allocate_def Let_def invoke_def example_defs)
  have w: "native_work (snd (snd (dpiObject__close native_ok person True []))) \<noteq> native_work []"
    by (simp add: close_defs example_defs)
  show ?thesis
    using a w
      dependent_close_frees_nothing [where obj = "person\<lparr>dependsOnObj := Ptr 100\<rparr>"
        and nv = native_ok and checkError = True and tr = "[]"]
      dependent_close_frees_nothing [where obj = person
        and nv = native_ok and checkError = True and tr = "[]"]
      dependent_close_frees_nothing [where obj = "person\<lparr>objAddr := 120, type := ADDRESS,
          instance' := Ptr 40, indicator := Ptr 41, dependsOnObj := Ptr 100\<rparr>"
        and nv = native_ok and objType = ADDRESS and inst = "Ptr 40" and ind = "Ptr 41"
        and parent = person and tr = "[]"]
    by (simp add: person_def)
qed

section \<open>Conversions: nulls and the conversion matrix\<close>

text \<open>
  C3. Whatever the native type and the external type: a native value whose indicator is
  \<open>DPI_OCI_IND_NULL\<close> converts to \<open>isNull = 1\<close> with success, with no call and with a
  result that does not depend on the native value; a tagged value with \<open>isNull\<close> set
  converts to the indicator \<open>DPI_OCI_IND_NULL\<close>, a \<open>NULL\<close> value pointer and a \<open>NULL\<close>
  buffer, with no call and with \<open>lob\<close> untouched, so that the clear that follows
  releases nothing.
\<close>

theorem null_short_circuit:
  "dpiObject__fromOracleValue nv obj info val indPtr DPI_OCI_IND_NULL nativeTypeNum data tr
     = (Inr (), data\<lparr>isNull := True\<rparr>, tr)
   \<and> dpiObject__toOracleValue nv obj dataTypeInfo buffer0 lob0 nativeTypeNum (data\<lparr>isNull := True\<rparr>) tr
     = (Inr (), \<lparr>buffer = buf_asRaw NULL, lob = lob0, ociValue = NULL,
                 valueIndicator = DPI_OCI_IND_NULL, objectIndicator = NULL\<rparr>, tr)
   \<and> dpiObject__clearOracleValue nv obj (buf_asRaw NULL) None (oracleTypeNum dataTypeInfo) tr = tr"
  by (simp add: dpiObject__fromOracleValue_def dpiObject__toOracleValue_def
        dpiObject__clearOracleValue_def)



lemma unhandled_ne_helper [simp]:
  "fst (from_helper nv fn args data tr) \<noteq> unhandled_conversion action ot nt"
  "fst (to_helper nv fn args member data out tr) \<noteq> unhandled_conversion action ot nt"
  by (simp_all add: from_helper_def to_helper_def unhandled_conversion_def Let_def case_prod_beta)








section \<open>Attributes and index queries\<close>

lemma check_events:
  "\<exists>xs. snd (dpiObject__check nv obj fnName tr) = tr @ xs \<and> list_all is_validation xs"
  by (simp add: dpiObject__check_def Let_def invoke_def)

lemma endPublicFn_events:
  "\<exists>ok. dpiGen__endPublicFn nv obj st tr =
     (st, tr @ [(Call ''dpiGen__endPublicFn'' [Obj obj, B (\<not> isl st)], ok)])"
  by (simp add: dpiGen__endPublicFn_def invoke_def)

lemma is_validation_end [simp]:
  "is_validation (Call ''dpiGen__endPublicFn'' args, ok)"
  "is_validation (Call ''dpiGen__checkHandle'' args, ok)"
  by simp_all

lemma get_wrong_attr_fails:
  assumes "tdo (belongsToType attr) \<noteq> tdo (type obj)"
  shows "isl (fst (dpiObject_getAttributeValue nv obj attr nt data tr))
     \<and> (\<exists>xs. snd (snd (dpiObject_getAttributeValue nv obj attr nt data tr)) = tr @ xs
           \<and> list_all is_validation xs)"
proof -
  obtain xs where xs: "snd (dpiObject__check nv obj ''dpiObject_getAttributeValue'' tr) = tr @ xs"
      "list_all is_validation xs"
    using check_events by blast
  show ?thesis
    using assms xs
    by (cases "dpiObject__check nv obj ''dpiObject_getAttributeValue'' tr")
       (auto simp add: dpiObject_getAttributeValue_def dpiGen__endPublicFn_def native_status_def
          invoke_def Let_def null_pointer_parameter_def dpiError__set_def
          split: sum.splits option.splits)
qed

lemma set_wrong_attr_fails:
  assumes "tdo (belongsToType attr) \<noteq> tdo (type obj)"
  shows "isl (fst (dpiObject_setAttributeValue nv obj attr nt data tr))
     \<and> (\<exists>xs. snd (dpiObject_setAttributeValue nv obj attr nt data tr) = tr @ xs
           \<and> list_all is_validation xs)"
proof -
  obtain xs where xs: "snd (dpiObject__check nv obj ''dpiObject_setAttributeValue'' tr) = tr @ xs"
      "list_all is_validation xs"
    using check_events by blast
  show ?thesis
    using assms xs
    by (cases "dpiObject__check nv obj ''dpiObject_setAttributeValue'' tr")
       (auto simp add: dpiObject_setAttributeValue_def dpiGen__endPublicFn_def native_status_def
          invoke_def Let_def null_pointer_parameter_def dpiError__set_def
          split: sum.splits option.splits)
qed

lemma get_wrong_attr_error:
  assumes "tdo (belongsToType attr) \<noteq> tdo (type obj)"
    and "dpiObject__check nv obj ''dpiObject_getAttributeValue'' tr = (Inr (), tr1)"
    and "status nv tr1 (checkHandle_call ''get attribute value'' attr)"
  shows "\<exists>ok. dpiObject_getAttributeValue nv obj attr nt (Some d) tr =
     (wrong_attr_error ''get attribute value'' attr obj, Some d,
      tr1 @ [(checkHandle_call ''get attribute value'' attr, True),
             (Call ''dpiGen__endPublicFn'' [Obj obj, B False], ok)])"
  using assms
  by (simp add: dpiObject_getAttributeValue_def dpiGen__endPublicFn_def native_status_def
        invoke_def Let_def dpiError__set_def wrong_attr_error_def checkHandle_call_def)

lemma set_wrong_attr_error:
  assumes "tdo (belongsToType attr) \<noteq> tdo (type obj)"
    and "dpiObject__check nv obj ''dpiObject_setAttributeValue'' tr = (Inr (), tr1)"
    and "status nv tr1 (checkHandle_call ''set attribute value'' attr)"
  shows "\<exists>ok. dpiObject_setAttributeValue nv obj attr nt (Some d) tr =
     (wrong_attr_error ''set attribute value'' attr obj,
      tr1 @ [(checkHandle_call ''set attribute value'' attr, True),
             (Call ''dpiGen__endPublicFn'' [Obj obj, B False], ok)])"
  using assms
  by (simp add: dpiObject_setAttributeValue_def dpiGen__endPublicFn_def native_status_def
        invoke_def Let_def dpiError__set_def wrong_attr_error_def checkHandle_call_def)

text \<open>
  C8. An attribute whose owning type has another type descriptor (\<open>tdo\<close>) than the type
  of the object: \<open>dpiObject_getAttributeValue\<close> and \<open>dpiObject_setAttributeValue\<close> fail,
  and every call they make is a validation call or the epilogue, so neither
  \<open>dpiOci__objectGetAttr\<close> nor \<open>dpiOci__objectSetAttr\<close> nor a conversion is reached. When
  the checks placed before this one pass (the handle and connection check, the data
  pointer, the attribute handle), the error is \<open>DPI_ERR_WRONG_ATTR\<close> with the name of the
  attribute and the schema and name of the object's type, and the only calls after the
  checks are \<open>dpiGen__checkHandle\<close> and \<open>dpiGen__endPublicFn\<close>.
\<close>

theorem wrong_attr_short_circuits:
  assumes "tdo (belongsToType attr) \<noteq> tdo (type obj)"
  shows "isl (fst (dpiObject_getAttributeValue nv obj attr nt data tr))
     \<and> list_all is_validation
         (new_events tr (snd (snd (dpiObject_getAttributeValue nv obj attr nt data tr))))
     \<and> isl (fst (dpiObject_setAttributeValue nv obj attr nt data tr))
     \<and> list_all is_validation
         (new_events tr (snd (dpiObject_setAttributeValue nv obj attr nt data tr)))
     \<and> (dpiObject__check nv obj ''dpiObject_getAttributeValue'' tr = (Inr (), tr1)
          \<and> status nv tr1 (checkHandle_call ''get attribute value'' attr) \<longrightarrow>
         fst (dpiObject_getAttributeValue nv obj attr nt (Some d) tr)
           = wrong_attr_error ''get attribute value'' attr obj
         \<and> map fst (new_events tr1 (snd (snd (dpiObject_getAttributeValue nv obj attr nt (Some d) tr))))
           = [checkHandle_call ''get attribute value'' attr,
              Call ''dpiGen__endPublicFn'' [Obj obj, B False]])
     \<and> (dpiObject__check nv obj ''dpiObject_setAttributeValue'' tr = (Inr (), tr2)
          \<and> status nv tr2 (checkHandle_call ''set attribute value'' attr) \<longrightarrow>
         fst (dpiObject_setAttributeValue nv obj attr nt (Some d) tr)
           = wrong_attr_error ''set attribute value'' attr obj
         \<and> map fst (new_events tr2 (snd (dpiObject_setAttributeValue nv obj attr nt (Some d) tr)))
           = [checkHandle_call ''set attribute value'' attr,
              Call ''dpiGen__endPublicFn'' [Obj obj, B False]])"
proof (intro conjI impI)
  show "isl (fst (dpiObject_getAttributeValue nv obj attr nt data tr))"
    using get_wrong_attr_fails [OF assms] by blast
  show "list_all is_validation
         (new_events tr (snd (snd (dpiObject_getAttributeValue nv obj attr nt data tr))))"
    using get_wrong_attr_fails [OF assms, of nv nt data tr] by auto
  show "isl (fst (dpiObject_setAttributeValue nv obj attr nt data tr))"
    using set_wrong_attr_fails [OF assms] by blast
  show "list_all is_validation
         (new_events tr (snd (dpiObject_setAttributeValue nv obj attr nt data tr)))"
    using set_wrong_attr_fails [OF assms, of nv nt data tr] by auto
next
  assume a: "dpiObject__check nv obj ''dpiObject_getAttributeValue'' tr = (Inr (), tr1)
    \<and> status nv tr1 (checkHandle_call ''get attribute value'' attr)"
  show "fst (dpiObject_getAttributeValue nv obj attr nt (Some d) tr)
      = wrong_attr_error ''get attribute value'' attr obj"
    using get_wrong_attr_error [OF assms, of nv tr tr1 nt d] a by auto
  show "map fst (new_events tr1 (snd (snd (dpiObject_getAttributeValue nv obj attr nt (Some d) tr))))
      = [checkHandle_call ''get attribute value'' attr,
         Call ''dpiGen__endPublicFn'' [Obj obj, B False]]"
    using get_wrong_attr_error [OF assms, of nv tr tr1 nt d] a by auto
next
  assume a: "dpiObject__check nv obj ''dpiObject_setAttributeValue'' tr = (Inr (), tr2)
    \<and> status nv tr2 (checkHandle_call ''set attribute value'' attr)"
  show "fst (dpiObject_setAttributeValue nv obj attr nt (Some d) tr)
      = wrong_attr_error ''set attribute value'' attr obj"
    using set_wrong_attr_error [OF assms, of nv tr tr2 nt d] a by auto
  show "map fst (new_events tr2 (snd (dpiObject_setAttributeValue nv obj attr nt (Some d) tr)))
      = [checkHandle_call ''set attribute value'' attr,
         Call ''dpiGen__endPublicFn'' [Obj obj, B False]]"
    using set_wrong_attr_error [OF assms, of nv tr tr2 nt d] a by auto
qed

lemmas public_defs =
  dpiObject__check_def dpiObject__checkIsCollection_def dpiGen__endPublicFn_def
  native_status_def null_pointer_parameter_def dpiError__set_def invoke_def Let_def

theorem wrong_attr_short_circuits_witness:
  "tdo (belongsToType STREET) \<noteq> tdo (type person)
   \<and> dpiObject__check native_ok person ''dpiObject_getAttributeValue'' []
       = (Inr (), snd (dpiObject__check native_ok person ''dpiObject_getAttributeValue'' []))
   \<and> status native_ok (snd (dpiObject__check native_ok person ''dpiObject_getAttributeValue'' []))
       (checkHandle_call ''get attribute value'' STREET)
   \<and> dpiObject__check native_ok person ''dpiObject_setAttributeValue'' []
       = (Inr (), snd (dpiObject__check native_ok person ''dpiObject_setAttributeValue'' []))
   \<and> status native_ok (snd (dpiObject__check native_ok person ''dpiObject_setAttributeValue'' []))
       (checkHandle_call ''set attribute value'' STREET)
   \<and> fst (dpiObject_getAttributeValue native_ok person STREET DPI_NATIVE_TYPE_BYTES (Some ada) [])
       = Inl (DpiError ''get attribute value'' (DPI_ERR_WRONG_ATTR ''STREET'' ''HR'' ''PERSON''))
   \<and> fst (dpiObject_setAttributeValue native_ok person STREET DPI_NATIVE_TYPE_BYTES (Some ada) [])
       = Inl (DpiError ''set attribute value'' (DPI_ERR_WRONG_ATTR ''STREET'' ''HR'' ''PERSON''))"
proof -
  have t: "tdo (belongsToType STREET) \<noteq> tdo (type person)"
    by (simp add: example_defs)
  have g: "dpiObject__check native_ok person ''dpiObject_getAttributeValue'' []
       = (Inr (), snd (dpiObject__check native_ok person ''dpiObject_getAttributeValue'' []))"
    by (simp add: public_defs native_ok_def native_with_def)
  have s: "dpiObject__check native_ok person ''dpiObject_setAttributeValue'' []
       = (Inr (), snd (dpiObject__check native_ok person ''dpiObject_setAttributeValue'' []))"
    by (simp add: public_defs native_ok_def native_with_def)
  have h: "status native_ok tr c" for tr c
    by (simp add: native_ok_def native_with_def)
  have w: "wrong_attr_error action STREET person
       = Inl (DpiError action (DPI_ERR_WRONG_ATTR ''STREET'' ''HR'' ''PERSON''))" for action
    by (simp add: wrong_attr_error_def example_defs)
  show ?thesis
    using t g s h w
      wrong_attr_short_circuits [OF t, where nv = native_ok and tr = "[]"
        and ?tr1.0 = "snd (dpiObject__check native_ok person ''dpiObject_getAttributeValue'' [])"
        and ?tr2.0 = "snd (dpiObject__check native_ok person ''dpiObject_setAttributeValue'' [])"
        and nt = DPI_NATIVE_TYPE_BYTES and d = ada and data = "Some ada"]
    by simp
qed

text \<open>
  C9. On an object that passes the collection check, with non-\<open>NULL\<close> out-pointers and
  a native size call that succeeds: when the size is zero, \<open>dpiObject_getFirstIndex\<close> and
  \<open>dpiObject_getLastIndex\<close> return success, set \<open>exists\<close> to false, leave \<open>index\<close> alone
  and call nothing but the size and the epilogue; when the size is not zero they set
  \<open>exists\<close> to true, and their status and \<open>index\<close> are those of the one native
  \<open>dpiOci__tableFirst\<close> or \<open>dpiOci__tableLast\<close> call.
\<close>

theorem end_index_of_collection:
  assumes "dpiObject__checkIsCollection nv obj ''dpiObject_getFirstIndex'' tr = (Inr (), trF)"
      and "status nv trF (tableSize_call obj)"
      and "dpiObject__checkIsCollection nv obj ''dpiObject_getLastIndex'' tr = (Inr (), trL)"
      and "status nv trL (tableSize_call obj)"
  shows "(outInt nv trF (tableSize_call obj) = 0 \<longrightarrow>
           fst (dpiObject_getFirstIndex nv obj (Some index0) (Some exists0) tr) = Inr ()
           \<and> fst (snd (dpiObject_getFirstIndex nv obj (Some index0) (Some exists0) tr)) = Some index0
           \<and> fst (snd (snd (dpiObject_getFirstIndex nv obj (Some index0) (Some exists0) tr))) = Some False
           \<and> map fst (new_events trF
                 (snd (snd (snd (dpiObject_getFirstIndex nv obj (Some index0) (Some exists0) tr)))))
               = [tableSize_call obj, Call ''dpiGen__endPublicFn'' [Obj obj, B True]])
       \<and> (outInt nv trF (tableSize_call obj) \<noteq> 0 \<longrightarrow>
           fst (dpiObject_getFirstIndex nv obj (Some index0) (Some exists0) tr)
             = fst (native_status nv (Call ''dpiOci__tableFirst'' [Obj obj, W index0])
                      (trF @ [(tableSize_call obj, True)]))
           \<and> fst (snd (dpiObject_getFirstIndex nv obj (Some index0) (Some exists0) tr))
             = Some (outInt nv (trF @ [(tableSize_call obj, True)])
                      (Call ''dpiOci__tableFirst'' [Obj obj, W index0]))
           \<and> fst (snd (snd (dpiObject_getFirstIndex nv obj (Some index0) (Some exists0) tr))) = Some True)
       \<and> (outInt nv trL (tableSize_call obj) = 0 \<longrightarrow>
           fst (dpiObject_getLastIndex nv obj (Some index0) (Some exists0) tr) = Inr ()
           \<and> fst (snd (dpiObject_getLastIndex nv obj (Some index0) (Some exists0) tr)) = Some index0
           \<and> fst (snd (snd (dpiObject_getLastIndex nv obj (Some index0) (Some exists0) tr))) = Some False
           \<and> map fst (new_events trL
                 (snd (snd (snd (dpiObject_getLastIndex nv obj (Some index0) (Some exists0) tr)))))
               = [tableSize_call obj, Call ''dpiGen__endPublicFn'' [Obj obj, B True]])
       \<and> (outInt nv trL (tableSize_call obj) \<noteq> 0 \<longrightarrow>
           fst (dpiObject_getLastIndex nv obj (Some index0) (Some exists0) tr)
             = fst (native_status nv (Call ''dpiOci__tableLast'' [Obj obj, W index0])
                      (trL @ [(tableSize_call obj, True)]))
           \<and> fst (snd (dpiObject_getLastIndex nv obj (Some index0) (Some exists0) tr))
             = Some (outInt nv (trL @ [(tableSize_call obj, True)])
                      (Call ''dpiOci__tableLast'' [Obj obj, W index0]))
           \<and> fst (snd (snd (dpiObject_getLastIndex nv obj (Some index0) (Some exists0) tr))) = Some True)"
  using assms
  by (simp add: dpiObject_getFirstIndex_def dpiObject_getLastIndex_def tableSize_call_def
        dpiGen__endPublicFn_def native_status_def invoke_def Let_def case_prod_beta)

theorem end_index_of_collection_witness:
  "dpiObject__checkIsCollection empty_list clob_list ''dpiObject_getFirstIndex'' []
     = (Inr (), snd (dpiObject__checkIsCollection empty_list clob_list ''dpiObject_getFirstIndex'' []))
   \<and> dpiObject__checkIsCollection empty_list clob_list ''dpiObject_getLastIndex'' []
     = (Inr (), snd (dpiObject__checkIsCollection empty_list clob_list ''dpiObject_getLastIndex'' []))
   \<and> status empty_list (snd (dpiObject__checkIsCollection empty_list clob_list ''dpiObject_getFirstIndex'' []))
        (tableSize_call clob_list)
   \<and> outInt empty_list (snd (dpiObject__checkIsCollection empty_list clob_list ''dpiObject_getFirstIndex'' []))
        (tableSize_call clob_list) = 0
   \<and> fst (dpiObject_getFirstIndex empty_list clob_list (Some 9) (Some True) []) = Inr ()
   \<and> fst (snd (snd (dpiObject_getFirstIndex empty_list clob_list (Some 9) (Some True) []))) = Some False
   \<and> fst (dpiObject_getLastIndex empty_list clob_list (Some 9) (Some True) []) = Inr ()
   \<and> fst (snd (snd (dpiObject_getLastIndex empty_list clob_list (Some 9) (Some True) []))) = Some False
   \<and> outInt three_clobs (snd (dpiObject__checkIsCollection three_clobs clob_list ''dpiObject_getFirstIndex'' []))
        (tableSize_call clob_list) \<noteq> 0
   \<and> fst (snd (snd (dpiObject_getFirstIndex three_clobs clob_list (Some 9) (Some False) []))) = Some True
   \<and> fst (snd (snd (dpiObject_getLastIndex three_clobs clob_list (Some 9) (Some False) []))) = Some True"
proof -
  let ?F = "\<lambda>nv. snd (dpiObject__checkIsCollection nv clob_list ''dpiObject_getFirstIndex'' [])"
  let ?L = "\<lambda>nv. snd (dpiObject__checkIsCollection nv clob_list ''dpiObject_getLastIndex'' [])"
  have cF: "dpiObject__checkIsCollection nv clob_list ''dpiObject_getFirstIndex'' [] = (Inr (), ?F nv)"
    if "\<And>tr c. status nv tr c" for nv
    using that by (simp add: public_defs clob_list_def CLOB_LIST_def)
  have cL: "dpiObject__checkIsCollection nv clob_list ''dpiObject_getLastIndex'' [] = (Inr (), ?L nv)"
    if "\<And>tr c. status nv tr c" for nv
    using that by (simp add: public_defs clob_list_def CLOB_LIST_def)
  have s0: "status empty_list tr c" for tr c
    by (simp add: empty_list_def native_ok_def native_with_def)
  have s3: "status three_clobs tr c" for tr c
    by (simp add: three_clobs_def native_ok_def native_with_def)
  have z: "outInt empty_list tr c = 0" for tr c
    by (simp add: empty_list_def native_ok_def native_with_def)
  have n: "outInt three_clobs tr (tableSize_call clob_list) \<noteq> 0" for tr
    by (simp add: three_clobs_def native_ok_def native_with_def tableSize_call_def)
  show ?thesis
    using s0 z n cF [OF s0] cL [OF s0]
      end_index_of_collection [OF cF [OF s0] s0 cL [OF s0] s0, where ?index0.0 = 9 and ?exists0.0 = True]
      end_index_of_collection [OF cF [OF s3] s3 cL [OF s3] s3, where ?index0.0 = 9 and ?exists0.0 = False]
    by simp
qed

section \<open>The scratch buffer is cleared once\<close>

lemma toOracleValue_new_events:
  "snd (snd (dpiObject__toOracleValue nv obj info buffer0 lob0 nt data tr))
     = tr @ new_events tr (snd (snd (dpiObject__toOracleValue nv obj info buffer0 lob0 nt data tr)))
   \<and> filter is_release
        (new_events tr (snd (snd (dpiObject__toOracleValue nv obj info buffer0 lob0 nt data tr)))) = []"
  by (cases "oracleTypeNum info"; cases "isNull data")
     (simp_all add: dpiObject__toOracleValue_def Let_def invoke_def to_helper_def dpiError__set_def
        case_prod_beta)

lemma toOracleValue_events:
  "\<exists>xs. snd (snd (dpiObject__toOracleValue nv obj info buffer0 lob0 nt data tr)) = tr @ xs
        \<and> filter is_release xs = []"
  using toOracleValue_new_events by blast

lemma toOracleValue_pointer_buffer:
  assumes "oracleTypeNum info = DPI_ORACLE_TYPE_CHAR \<or> oracleTypeNum info = DPI_ORACLE_TYPE_NCHAR
     \<or> oracleTypeNum info = DPI_ORACLE_TYPE_VARCHAR \<or> oracleTypeNum info = DPI_ORACLE_TYPE_NVARCHAR
     \<or> oracleTypeNum info = DPI_ORACLE_TYPE_RAW \<or> oracleTypeNum info = DPI_ORACLE_TYPE_TIMESTAMP
     \<or> oracleTypeNum info = DPI_ORACLE_TYPE_TIMESTAMP_TZ
     \<or> oracleTypeNum info = DPI_ORACLE_TYPE_TIMESTAMP_LTZ"
  shows "buf_asRaw (buf_pointer (buffer (fst (snd
            (dpiObject__toOracleValue nv obj info buffer0 lob0 nt data tr)))))
         = buffer (fst (snd (dpiObject__toOracleValue nv obj info buffer0 lob0 nt data tr)))"
proof -
  have n: "isNull data \<Longrightarrow> ?thesis"
    by (simp add: dpiObject__toOracleValue_def)
  have v: "\<not> isNull data \<Longrightarrow> ?thesis"
    apply (insert assms)
    apply (cases "oracleTypeNum info")
    apply (simp_all add: dpiObject__toOracleValue_def Let_def invoke_def dpiError__set_def
             case_prod_beta)
    done
  show ?thesis using n v by blast
qed

lemma clear_new_events:
  "dpiObject__clearOracleValue nv obj buf l tag tr
     = tr @ new_events tr (dpiObject__clearOracleValue nv obj buf l tag tr)
   \<and> map fst (new_events tr (dpiObject__clearOracleValue nv obj buf l tag tr))
       = releases (dpiObject__clearOracleValue nv obj buf l tag [])
   \<and> filter is_release (new_events tr (dpiObject__clearOracleValue nv obj buf l tag tr))
       = new_events tr (dpiObject__clearOracleValue nv obj buf l tag tr)
   \<and> length (new_events tr (dpiObject__clearOracleValue nv obj buf l tag tr)) \<le> 1"
  apply (cases l)
   apply (simp_all add: dpiObject__clearOracleValue_def)
   apply (simp_all add: invoke_def)
   apply (simp_all add: releases_def)
  done

lemma native_status_events:
  "\<exists>ok. snd (native_status nv c tr) = tr @ [(c, ok)]"
  by (simp add: native_status_def invoke_def)

lemma not_release_native [simp]:
  "\<not> is_release (Call ''dpiOci__collAppend'' args, ok)"
  "\<not> is_release (Call ''dpiOci__collAssignElem'' args, ok)"
  "\<not> is_release (Call ''dpiOci__objectSetAttr'' args, ok)"
  by simp_all

text \<open>
  The second half of the three setters: the native call if the conversion has succeeded
  (\<open>native_call\<close> builds it from the out-parameters), the clear, the epilogue.
\<close>

lemma convert_then_clear:
  fixes native_call :: "scratch \<Rightarrow> call"
  assumes nr: "\<And>out ok. \<not> is_release (native_call out, ok)"
  defines "conv \<equiv> \<lambda>nv obj info nt d tr1.
             dpiObject__toOracleValue nv obj info buf_uninit None nt d tr1"
  shows "\<exists>pre cl e.
      snd (let (st, out, tr2) = conv nv obj info nt d tr1;
               (st', tr3) = (case st of Inr u \<Rightarrow> native_status nv (native_call out) tr2
                             | Inl e \<Rightarrow> (Inl e, tr2));
               tr4 = dpiObject__clearOracleValue nv obj (buffer out) (lob out)
                       (oracleTypeNum info) tr3
           in dpiGen__endPublicFn nv obj st' tr4)
        = tr1 @ pre @ cl @ [e]
      \<and> filter is_release pre = []
      \<and> dpiObject__clearOracleValue nv obj (buffer (fst (snd (conv nv obj info nt d tr1))))
            (lob (fst (snd (conv nv obj info nt d tr1)))) (oracleTypeNum info) (tr1 @ pre)
          = tr1 @ pre @ cl
      \<and> map fst cl = releases (dpiObject__clearOracleValue nv obj
            (buffer (fst (snd (conv nv obj info nt d tr1))))
            (lob (fst (snd (conv nv obj info nt d tr1)))) (oracleTypeNum info) [])
      \<and> length cl \<le> 1
      \<and> call_name (fst e) = ''dpiGen__endPublicFn''"
proof -
  obtain st out tr2 where c: "conv nv obj info nt d tr1 = (st, out, tr2)"
    by (metis prod_cases3)
  obtain xs where xs: "tr2 = tr1 @ xs" "filter is_release xs = []"
    using toOracleValue_events [of nv obj info buf_uninit None nt d tr1] c
    by (auto simp: conv_def)
  obtain st' tr3 where n: "(case st of Inr u \<Rightarrow> native_status nv (native_call out) tr2
                             | Inl e \<Rightarrow> (Inl e, tr2)) = (st', tr3)"
    by (metis surj_pair)
  obtain ys where ys: "tr3 = tr2 @ ys" "filter is_release ys = []"
  proof (cases st)
    case (Inl e)
    then have "tr3 = tr2 @ []" using n by simp
    then show ?thesis using that by simp
  next
    case (Inr u)
    then obtain ok where "tr3 = tr2 @ [(native_call out, ok)]"
      using n native_status_events [of nv "native_call out" tr2] by auto
    then show ?thesis using that nr by simp
  qed
  let ?clear = "dpiObject__clearOracleValue nv obj (buffer out) (lob out) (oracleTypeNum info)"
  let ?cl = "new_events (tr1 @ xs @ ys) (?clear (tr1 @ xs @ ys))"
  have cl: "?clear (tr1 @ xs @ ys) = (tr1 @ xs @ ys) @ ?cl"
    "map fst ?cl = releases (?clear [])" "length ?cl \<le> 1"
    using clear_new_events [of nv obj "buffer out" "lob out" "oracleTypeNum info" "tr1 @ xs @ ys"]
    by simp_all
  obtain ok where e: "dpiGen__endPublicFn nv obj st' (?clear (tr1 @ xs @ ys))
      = (st', ?clear (tr1 @ xs @ ys) @ [(Call ''dpiGen__endPublicFn'' [Obj obj, B (\<not> isl st')], ok)])"
    using endPublicFn_events by blast
  have tr3: "tr3 = tr1 @ xs @ ys" using xs(1) ys(1) by simp
  have "snd (let (st, out, tr2) = conv nv obj info nt d tr1;
               (st', tr3) = (case st of Inr u \<Rightarrow> native_status nv (native_call out) tr2
                             | Inl e \<Rightarrow> (Inl e, tr2));
               tr4 = dpiObject__clearOracleValue nv obj (buffer out) (lob out)
                       (oracleTypeNum info) tr3
           in dpiGen__endPublicFn nv obj st' tr4)
      = snd (dpiGen__endPublicFn nv obj st' (?clear tr3))"
    by (simp add: c n)
  also have "\<dots> = ?clear (tr1 @ xs @ ys) @ [(Call ''dpiGen__endPublicFn'' [Obj obj, B (\<not> isl st')], ok)]"
    unfolding tr3 e by simp
  also have "\<dots> = tr1 @ (xs @ ys) @ ?cl @ [(Call ''dpiGen__endPublicFn'' [Obj obj, B (\<not> isl st')], ok)]"
    using cl(1) by simp
  finally have t: "snd (let (st, out, tr2) = conv nv obj info nt d tr1;
               (st', tr3) = (case st of Inr u \<Rightarrow> native_status nv (native_call out) tr2
                             | Inl e \<Rightarrow> (Inl e, tr2));
               tr4 = dpiObject__clearOracleValue nv obj (buffer out) (lob out)
                       (oracleTypeNum info) tr3
           in dpiGen__endPublicFn nv obj st' tr4)
      = tr1 @ (xs @ ys) @ ?cl @ [(Call ''dpiGen__endPublicFn'' [Obj obj, B (\<not> isl st')], ok)]" .
  show ?thesis
    apply (rule exI [of _ "xs @ ys"])
    apply (rule exI [of _ ?cl])
    apply (rule exI [of _ "(Call ''dpiGen__endPublicFn'' [Obj obj, B (\<not> isl st')], ok)"])
    using t xs(2) ys(2) cl by (simp add: c)
qed

lemma releases_append [simp]: "releases (xs @ ys) = releases xs @ releases ys"
  by (simp add: releases_def)

lemma releases_Nil [simp]: "releases [] = []"
  by (simp add: releases_def)

lemma releases_none: "filter is_release xs = [] \<Longrightarrow> releases xs = []"
  by (simp add: releases_def)

lemma releases_all: "filter is_release xs = xs \<Longrightarrow> releases xs = map fst xs"
  by (simp add: releases_def)

lemma releases_endPublicFn:
  "call_name (fst e) = ''dpiGen__endPublicFn'' \<Longrightarrow> releases [e] = []"
  by (cases e, cases "fst e") (auto simp: releases_def)

lemma setter_releases:
  fixes native_call :: "scratch \<Rightarrow> call"
  assumes nr: "\<And>out ok. \<not> is_release (native_call out, ok)"
    and final: "final =
      snd (let (st, out, tr2) = dpiObject__toOracleValue nv obj info buf_uninit None nt d tr1;
               (st', tr3) = (case st of Inr u \<Rightarrow> native_status nv (native_call out) tr2
                             | Inl e \<Rightarrow> (Inl e, tr2));
               tr4 = dpiObject__clearOracleValue nv obj (buffer out) (lob out)
                       (oracleTypeNum info) tr3
           in dpiGen__endPublicFn nv obj st' tr4)"
    and out: "out = fst (snd (dpiObject__toOracleValue nv obj info buf_uninit None nt d tr1))"
  shows "releases (new_events tr1 final)
           = releases (dpiObject__clearOracleValue nv obj (buffer out) (lob out) (oracleTypeNum info) [])
       \<and> length (releases (new_events tr1 final)) \<le> 1
       \<and> call_name (fst (last final)) = ''dpiGen__endPublicFn''"
proof -
  obtain pre cl e where s: "final = tr1 @ pre @ cl @ [e]" "filter is_release pre = []"
      "dpiObject__clearOracleValue nv obj (buffer out) (lob out) (oracleTypeNum info) (tr1 @ pre)
         = tr1 @ pre @ cl"
      "map fst cl = releases (dpiObject__clearOracleValue nv obj (buffer out) (lob out)
         (oracleTypeNum info) [])"
      "length cl \<le> 1" "call_name (fst e) = ''dpiGen__endPublicFn''"
    using convert_then_clear [where native_call = native_call and nv = nv and obj = obj
        and info = info and nt = nt and d = d and ?tr1.0 = tr1] nr
    unfolding final out by blast
  have "filter is_release cl = cl"
    using clear_new_events [of nv obj "buffer out" "lob out" "oracleTypeNum info" "tr1 @ pre"] s(3)
    by simp
  then have r: "releases cl = map fst cl" by (rule releases_all)
  have "releases (new_events tr1 final) = map fst cl"
    using s(1) releases_none [OF s(2)] releases_endPublicFn [OF s(6)] r by simp
  moreover have "length (map fst cl) \<le> 1" using s(5) by simp
  moreover have "last final = e" using s(1) by simp
  ultimately show ?thesis using s(4) s(6) by simp
qed

lemma appendElement_releases:
  assumes "dpiObject__checkIsCollection nv obj ''dpiObject_appendElement'' tr = (Inr (), tr1)"
    and "out = fst (snd (dpiObject__toOracleValue nv obj (elementTypeInfo (type obj))
                  buf_uninit None nt d tr1))"
  shows "releases (new_events tr1 (snd (dpiObject_appendElement nv obj nt (Some d) tr)))
           = releases (dpiObject__clearOracleValue nv obj (buffer out) (lob out)
               (oracleTypeNum (elementTypeInfo (type obj))) [])
       \<and> length (releases (new_events tr1 (snd (dpiObject_appendElement nv obj nt (Some d) tr)))) \<le> 1
       \<and> call_name (fst (last (snd (dpiObject_appendElement nv obj nt (Some d) tr))))
           = ''dpiGen__endPublicFn''"
  by (rule setter_releases [where native_call = "\<lambda>out. Call ''dpiOci__collAppend''
          [Conn (conn (type obj)), P (ociValue out), Buf (buffer out),
           P (if objectIndicator out = NULL then Local ''scalarValueIndicator''
              else objectIndicator out),
           I (sint (valueIndicator out)), P (instance' obj)]"])
     (simp_all add: dpiObject_appendElement_def assms Let_def case_prod_beta)

lemma setElementValueByIndex_releases:
  assumes "dpiObject__checkIsCollection nv obj ''dpiObject_setElementValueByIndex'' tr = (Inr (), tr1)"
    and "out = fst (snd (dpiObject__toOracleValue nv obj (elementTypeInfo (type obj))
                  buf_uninit None nt d tr1))"
  shows "releases (new_events tr1 (snd (dpiObject_setElementValueByIndex nv obj index nt (Some d) tr)))
           = releases (dpiObject__clearOracleValue nv obj (buffer out) (lob out)
               (oracleTypeNum (elementTypeInfo (type obj))) [])
       \<and> length (releases (new_events tr1
             (snd (dpiObject_setElementValueByIndex nv obj index nt (Some d) tr)))) \<le> 1
       \<and> call_name (fst (last (snd (dpiObject_setElementValueByIndex nv obj index nt (Some d) tr))))
           = ''dpiGen__endPublicFn''"
  by (rule setter_releases [where native_call = "\<lambda>out. Call ''dpiOci__collAssignElem''
          [Conn (conn (type obj)), W index, P (ociValue out), Buf (buffer out),
           P (if objectIndicator out = NULL then Local ''scalarValueIndicator''
              else objectIndicator out),
           I (sint (valueIndicator out)), P (instance' obj)]"])
     (simp_all add: dpiObject_setElementValueByIndex_def assms Let_def case_prod_beta)

lemma setAttributeValue_releases:
  assumes "dpiObject__check nv obj ''dpiObject_setAttributeValue'' tr = (Inr (), tr0)"
    and "status nv tr0 (checkHandle_call ''set attribute value'' attr)"
    and "tr1 = tr0 @ [(checkHandle_call ''set attribute value'' attr, True)]"
    and "tdo (belongsToType attr) = tdo (type obj)"
    and "oracleTypeNum (typeInfo attr) \<noteq> DPI_ORACLE_TYPE_ZERO"
    and "out = fst (snd (dpiObject__toOracleValue nv obj (typeInfo attr) buf_uninit None nt d tr1))"
  shows "releases (new_events tr1 (snd (dpiObject_setAttributeValue nv obj attr nt (Some d) tr)))
           = releases (dpiObject__clearOracleValue nv obj (buffer out) (lob out)
               (oracleTypeNum (typeInfo attr)) [])
       \<and> length (releases (new_events tr1
             (snd (dpiObject_setAttributeValue nv obj attr nt (Some d) tr)))) \<le> 1
       \<and> call_name (fst (last (snd (dpiObject_setAttributeValue nv obj attr nt (Some d) tr))))
           = ''dpiGen__endPublicFn''"
  by (rule setter_releases [where native_call = "\<lambda>out. Call ''dpiOci__objectSetAttr''
          [Obj obj, Attr attr, I (sint (valueIndicator out)), P (objectIndicator out),
           P (ociValue out), Buf (buffer out)]"])
     (simp_all add: dpiObject_setAttributeValue_def assms Let_def case_prod_beta
        native_status_def invoke_def checkHandle_call_def [symmetric])

text \<open>
  C5. In \<open>dpiObject_appendElement\<close>, \<open>dpiObject_setElementValueByIndex\<close> and
  \<open>dpiObject_setAttributeValue\<close>, once the validation has passed (\<open>trA\<close>, \<open>trE\<close>,
  \<open>trS\<close> are the traces at the conversion), whatever the conversion and the native
  append, assign or set return: the release calls the function makes are the release
  calls of one run of \<open>dpiObject__clearOracleValue\<close> on the buffer and LOB pointer the
  conversion has left, under the type tag of the element or attribute; there is at most
  one; and the last call of the function is the epilogue, so the release comes before the
  function returns.
\<close>

theorem scratch_cleared_once:
  "(dpiObject__checkIsCollection nv obj ''dpiObject_appendElement'' tr = (Inr (), trA) \<longrightarrow>
      releases (new_events trA (snd (dpiObject_appendElement nv obj nt (Some d) tr)))
        = clear_calls nv obj (elementTypeInfo (type obj))
            (converted nv obj (elementTypeInfo (type obj)) nt d trA)
      \<and> length (releases (new_events trA (snd (dpiObject_appendElement nv obj nt (Some d) tr)))) \<le> 1
      \<and> call_name (fst (last (snd (dpiObject_appendElement nv obj nt (Some d) tr))))
          = ''dpiGen__endPublicFn'')
   \<and> (dpiObject__checkIsCollection nv obj ''dpiObject_setElementValueByIndex'' tr = (Inr (), trE) \<longrightarrow>
      releases (new_events trE (snd (dpiObject_setElementValueByIndex nv obj index nt (Some d) tr)))
        = clear_calls nv obj (elementTypeInfo (type obj))
            (converted nv obj (elementTypeInfo (type obj)) nt d trE)
      \<and> length (releases (new_events trE
            (snd (dpiObject_setElementValueByIndex nv obj index nt (Some d) tr)))) \<le> 1
      \<and> call_name (fst (last (snd (dpiObject_setElementValueByIndex nv obj index nt (Some d) tr))))
          = ''dpiGen__endPublicFn'')
   \<and> (dpiObject__check nv obj ''dpiObject_setAttributeValue'' tr = (Inr (), tr0)
        \<and> status nv tr0 (checkHandle_call ''set attribute value'' attr)
        \<and> trS = tr0 @ [(checkHandle_call ''set attribute value'' attr, True)]
        \<and> tdo (belongsToType attr) = tdo (type obj)
        \<and> oracleTypeNum (typeInfo attr) \<noteq> DPI_ORACLE_TYPE_ZERO \<longrightarrow>
      releases (new_events trS (snd (dpiObject_setAttributeValue nv obj attr nt (Some d) tr)))
        = clear_calls nv obj (typeInfo attr) (converted nv obj (typeInfo attr) nt d trS)
      \<and> length (releases (new_events trS
            (snd (dpiObject_setAttributeValue nv obj attr nt (Some d) tr)))) \<le> 1
      \<and> call_name (fst (last (snd (dpiObject_setAttributeValue nv obj attr nt (Some d) tr))))
          = ''dpiGen__endPublicFn'')"
proof (intro conjI impI)
  assume a: "dpiObject__checkIsCollection nv obj ''dpiObject_appendElement'' tr = (Inr (), trA)"
  note r = appendElement_releases [OF a converted_def, where nt = nt and d = d, folded clear_calls_def]
  show "releases (new_events trA (snd (dpiObject_appendElement nv obj nt (Some d) tr)))
        = clear_calls nv obj (elementTypeInfo (type obj))
            (converted nv obj (elementTypeInfo (type obj)) nt d trA)"
    using r by blast
  show "length (releases (new_events trA (snd (dpiObject_appendElement nv obj nt (Some d) tr)))) \<le> 1"
    using r by blast
  show "call_name (fst (last (snd (dpiObject_appendElement nv obj nt (Some d) tr))))
          = ''dpiGen__endPublicFn''"
    using r by blast
next
  assume a: "dpiObject__checkIsCollection nv obj ''dpiObject_setElementValueByIndex'' tr = (Inr (), trE)"
  note r = setElementValueByIndex_releases [OF a converted_def, where nt = nt and d = d and index = index, folded clear_calls_def]
  show "releases (new_events trE (snd (dpiObject_setElementValueByIndex nv obj index nt (Some d) tr)))
        = clear_calls nv obj (elementTypeInfo (type obj))
            (converted nv obj (elementTypeInfo (type obj)) nt d trE)"
    using r by blast
  show "length (releases (new_events trE
            (snd (dpiObject_setElementValueByIndex nv obj index nt (Some d) tr)))) \<le> 1"
    using r by blast
  show "call_name (fst (last (snd (dpiObject_setElementValueByIndex nv obj index nt (Some d) tr))))
          = ''dpiGen__endPublicFn''"
    using r by blast
next
  assume a: "dpiObject__check nv obj ''dpiObject_setAttributeValue'' tr = (Inr (), tr0)
        \<and> status nv tr0 (checkHandle_call ''set attribute value'' attr)
        \<and> trS = tr0 @ [(checkHandle_call ''set attribute value'' attr, True)]
        \<and> tdo (belongsToType attr) = tdo (type obj)
        \<and> oracleTypeNum (typeInfo attr) \<noteq> DPI_ORACLE_TYPE_ZERO"
  have r: "releases (new_events trS (snd (dpiObject_setAttributeValue nv obj attr nt (Some d) tr)))
           = clear_calls nv obj (typeInfo attr) (converted nv obj (typeInfo attr) nt d trS)
       \<and> length (releases (new_events trS
             (snd (dpiObject_setAttributeValue nv obj attr nt (Some d) tr)))) \<le> 1
       \<and> call_name (fst (last (snd (dpiObject_setAttributeValue nv obj attr nt (Some d) tr))))
           = ''dpiGen__endPublicFn''"
    unfolding clear_calls_def
    by (rule setAttributeValue_releases [where ?tr0.0 = tr0]) (use a in \<open>simp_all add: converted_def\<close>)
  show "releases (new_events trS (snd (dpiObject_setAttributeValue nv obj attr nt (Some d) tr)))
        = clear_calls nv obj (typeInfo attr) (converted nv obj (typeInfo attr) nt d trS)"
    using r by blast
  show "length (releases (new_events trS
            (snd (dpiObject_setAttributeValue nv obj attr nt (Some d) tr)))) \<le> 1"
    using r by blast
  show "call_name (fst (last (snd (dpiObject_setAttributeValue nv obj attr nt (Some d) tr))))
          = ''dpiGen__endPublicFn''"
    using r by blast
qed

lemma check_passes:
  assumes "\<And>tr c. call_name c = ''dpiGen__startPublicFn'' \<or> call_name c = ''dpiConn__checkConnected''
             \<Longrightarrow> status nv tr c"
  shows "dpiObject__check nv obj fnName tr = (Inr (), snd (dpiObject__check nv obj fnName tr))"
  using assms by (simp add: dpiObject__check_def invoke_def Let_def)

lemma checkIsCollection_passes:
  assumes "\<And>tr c. call_name c = ''dpiGen__startPublicFn'' \<or> call_name c = ''dpiConn__checkConnected''
             \<Longrightarrow> status nv tr c"
    and "isCollection (type obj)"
  shows "dpiObject__checkIsCollection nv obj fnName tr
           = (Inr (), snd (dpiObject__checkIsCollection nv obj fnName tr))"
  using assms by (simp add: dpiObject__checkIsCollection_def dpiObject__check_def invoke_def Let_def)

lemmas conversion_defs =
  converted_def clear_calls_def dpiObject__toOracleValue_def dpiObject__clearOracleValue_def
  releases_def invoke_def Let_def

theorem scratch_cleared_once_witness:
  "dpiObject__checkIsCollection (native_failing ''dpiOci__collAppend'') clob_list
       ''dpiObject_appendElement'' []
     = (Inr (), snd (dpiObject__checkIsCollection (native_failing ''dpiOci__collAppend'') clob_list
          ''dpiObject_appendElement'' []))
   \<and> releases (new_events
         (snd (dpiObject__checkIsCollection (native_failing ''dpiOci__collAppend'') clob_list
            ''dpiObject_appendElement'' []))
         (snd (dpiObject_appendElement (native_failing ''dpiOci__collAppend'') clob_list
            DPI_NATIVE_TYPE_BYTES (Some ada) [])))
       = [Call ''dpiGen__setRefCount'' [Lob new_lob, I (- 1)]]
   \<and> dpiObject__checkIsCollection (native_failing ''dpiLob__setFromBytes'') clob_list
       ''dpiObject_setElementValueByIndex'' []
     = (Inr (), snd (dpiObject__checkIsCollection (native_failing ''dpiLob__setFromBytes'') clob_list
          ''dpiObject_setElementValueByIndex'' []))
   \<and> releases (new_events
         (snd (dpiObject__checkIsCollection (native_failing ''dpiLob__setFromBytes'') clob_list
            ''dpiObject_setElementValueByIndex'' []))
         (snd (dpiObject_setElementValueByIndex (native_failing ''dpiLob__setFromBytes'') clob_list 0
            DPI_NATIVE_TYPE_BYTES (Some ada) [])))
       = [Call ''dpiGen__setRefCount'' [Lob new_lob, I (- 1)]]
   \<and> dpiObject__check native_ok person ''dpiObject_setAttributeValue'' []
     = (Inr (), snd (dpiObject__check native_ok person ''dpiObject_setAttributeValue'' []))
   \<and> status native_ok (snd (dpiObject__check native_ok person ''dpiObject_setAttributeValue'' []))
         (checkHandle_call ''set attribute value'' NAME)
   \<and> tdo (belongsToType NAME) = tdo (type person)
   \<and> oracleTypeNum (typeInfo NAME) \<noteq> DPI_ORACLE_TYPE_ZERO
   \<and> releases (new_events
         (snd (dpiObject__check native_ok person ''dpiObject_setAttributeValue'' [])
            @ [(checkHandle_call ''set attribute value'' NAME, True)])
         (snd (dpiObject_setAttributeValue native_ok person NAME DPI_NATIVE_TYPE_BYTES (Some ada) [])))
       = [Call ''dpiOci__stringResize'' [P (Ptr 1), P (Ptr 500), W 0]]"
proof -
  let ?nvA = "native_failing ''dpiOci__collAppend''"
  let ?nvE = "native_failing ''dpiLob__setFromBytes''"
  let ?trA = "snd (dpiObject__checkIsCollection ?nvA clob_list ''dpiObject_appendElement'' [])"
  let ?trE = "snd (dpiObject__checkIsCollection ?nvE clob_list ''dpiObject_setElementValueByIndex'' [])"
  let ?tr0 = "snd (dpiObject__check native_ok person ''dpiObject_setAttributeValue'' [])"
  let ?trS = "?tr0 @ [(checkHandle_call ''set attribute value'' NAME, True)]"
  have col: "isCollection (type clob_list)" by (simp add: example_defs)
  have vA: "dpiObject__checkIsCollection ?nvA clob_list ''dpiObject_appendElement'' [] = (Inr (), ?trA)"
    by (rule checkIsCollection_passes [OF _ col]) (auto simp: native_failing_def native_with_def)
  have vE: "dpiObject__checkIsCollection ?nvE clob_list ''dpiObject_setElementValueByIndex'' []
      = (Inr (), ?trE)"
    by (rule checkIsCollection_passes [OF _ col]) (auto simp: native_failing_def native_with_def)
  have vS: "dpiObject__check native_ok person ''dpiObject_setAttributeValue'' [] = (Inr (), ?tr0)"
    by (rule check_passes) (simp add: native_ok_def native_with_def)
  have h: "status native_ok tr c" for tr c
    by (simp add: native_ok_def native_with_def)
  have t: "tdo (belongsToType NAME) = tdo (type person)"
      "oracleTypeNum (typeInfo NAME) \<noteq> DPI_ORACLE_TYPE_ZERO"
    by (simp_all add: example_defs)
  have cA: "clear_calls ?nvA clob_list (elementTypeInfo (type clob_list))
              (converted ?nvA clob_list (elementTypeInfo (type clob_list)) DPI_NATIVE_TYPE_BYTES ada ?trA)
            = [Call ''dpiGen__setRefCount'' [Lob new_lob, I (- 1)]]"
    by (simp add: conversion_defs example_defs)
  have cE: "clear_calls ?nvE clob_list (elementTypeInfo (type clob_list))
              (converted ?nvE clob_list (elementTypeInfo (type clob_list)) DPI_NATIVE_TYPE_BYTES ada ?trE)
            = [Call ''dpiGen__setRefCount'' [Lob new_lob, I (- 1)]]"
    by (simp add: conversion_defs example_defs)
  have cS: "clear_calls native_ok person (typeInfo NAME)
              (converted native_ok person (typeInfo NAME) DPI_NATIVE_TYPE_BYTES ada ?trS)
            = [Call ''dpiOci__stringResize'' [P (Ptr 1), P (Ptr 500), W 0]]"
    by (simp add: conversion_defs example_defs)
  show ?thesis
    using vA vE vS h t cA cE cS
      scratch_cleared_once [where nv = ?nvA and obj = clob_list and tr = "[]" and trA = ?trA
        and nt = DPI_NATIVE_TYPE_BYTES and d = ada]
      scratch_cleared_once [where nv = ?nvE and obj = clob_list and tr = "[]" and trE = ?trE
        and nt = DPI_NATIVE_TYPE_BYTES and d = ada and index = 0]
      scratch_cleared_once [where nv = native_ok and obj = person and tr = "[]" and ?tr0.0 = ?tr0
        and trS = ?trS and attr = NAME and nt = DPI_NATIVE_TYPE_BYTES and d = ada]
    by simp
qed

section \<open>A LOB created by the conversion\<close>

lemma lob_from_bytes:
  assumes "\<not> isNull d" "is_lob_type (oracleTypeNum info)"
  shows "lob (converted nv obj info DPI_NATIVE_TYPE_BYTES d tr)
           = (if status nv tr (lob_allocate_call obj info)
              then Some (outLob nv tr (lob_allocate_call obj info)) else None)"
  using assms unfolding is_lob_type_def
  by (elim disjE)
     (simp_all add: converted_def dpiObject__toOracleValue_def lob_allocate_call_def invoke_def
        Let_def)

lemma lob_by_handle:
  assumes "\<not> isNull d" "is_lob_type (oracleTypeNum info)"
  shows "lob (converted nv obj info DPI_NATIVE_TYPE_LOB d tr) = None
       \<and> ociValue (converted nv obj info DPI_NATIVE_TYPE_LOB d tr) = locator (asLOB (value' d))
       \<and> fst (dpiObject__toOracleValue nv obj info buf_uninit None DPI_NATIVE_TYPE_LOB d tr) = Inr ()
       \<and> snd (snd (dpiObject__toOracleValue nv obj info buf_uninit None DPI_NATIVE_TYPE_LOB d tr)) = tr"
  using assms unfolding is_lob_type_def
  by (elim disjE) (simp_all add: converted_def dpiObject__toOracleValue_def Let_def)

lemma clear_calls_lob:
  assumes "is_lob_type (oracleTypeNum info)"
  shows "clear_calls nv obj info out = (case lob out of Some l \<Rightarrow> [release_lob l] | None \<Rightarrow> [])"
  using assms unfolding is_lob_type_def
  by (elim disjE; cases "lob out")
     (simp_all add: clear_calls_def dpiObject__clearOracleValue_def release_lob_def releases_def
        invoke_def)

text \<open>
  C6, as the claim states it, fails. With bytes for a CLOB element and a
  \<open>dpiLob__setFromBytes\<close> that fails, the conversion fails after it has allocated the
  LOB and leaves that LOB in \<open>*lob\<close>; \<open>dpiObject__clearOracleValue\<close>, given this
  pointer by the caller, takes one reference off the new LOB. A LOB handed over by handle
  never reaches \<open>*lob\<close>, and the clear makes no call for it.
\<close>

theorem clear_releases_the_new_lob:
  "isl (fst (dpiObject__toOracleValue (native_failing ''dpiLob__setFromBytes'') clob_list
         (elementTypeInfo (type clob_list)) buf_uninit None DPI_NATIVE_TYPE_BYTES ada []))
   \<and> lob (converted (native_failing ''dpiLob__setFromBytes'') clob_list
         (elementTypeInfo (type clob_list)) DPI_NATIVE_TYPE_BYTES ada []) = Some new_lob
   \<and> releases (dpiObject__clearOracleValue (native_failing ''dpiLob__setFromBytes'') clob_list
         (buf_asRaw NULL) (Some new_lob) DPI_ORACLE_TYPE_CLOB [])
       = [Call ''dpiGen__setRefCount'' [Lob new_lob, I (- 1)]]
   \<and> releases (snd (dpiObject_appendElement (native_failing ''dpiLob__setFromBytes'') clob_list
         DPI_NATIVE_TYPE_BYTES (Some ada) []))
       = [Call ''dpiGen__setRefCount'' [Lob new_lob, I (- 1)]]
   \<and> asLOB (value' ada) = old_lob
   \<and> lob (converted native_ok clob_list (elementTypeInfo (type clob_list))
         DPI_NATIVE_TYPE_LOB ada []) = None
   \<and> releases (snd (dpiObject_appendElement native_ok clob_list
         DPI_NATIVE_TYPE_LOB (Some ada) [])) = []"
  by (simp add: conversion_defs public_defs dpiObject_appendElement_def example_defs)

text \<open>
  C6 as amended. Converting bytes that are not null for a LOB-typed element or attribute
  allocates a new LOB and leaves it in \<open>*lob\<close> as soon as the allocation has succeeded,
  whatever fails afterwards; the clear routine, run on what the conversion has left, takes
  one reference off exactly that LOB, and makes no call when the allocation has failed. A
  LOB passed by handle is converted by passing its locator on, is not put into \<open>*lob\<close>,
  and the clear routine makes no call for it. For \<open>dpiObject_appendElement\<close> these are
  all the release calls of the function.
\<close>

theorem new_lob_released_by_clear:
  assumes "\<not> isNull d" and "is_lob_type (oracleTypeNum info)"
  shows "lob (converted nv obj info DPI_NATIVE_TYPE_BYTES d tr)
           = (if status nv tr (lob_allocate_call obj info)
              then Some (outLob nv tr (lob_allocate_call obj info)) else None)
       \<and> clear_calls nv obj info (converted nv obj info DPI_NATIVE_TYPE_BYTES d tr)
           = (if status nv tr (lob_allocate_call obj info)
              then [release_lob (outLob nv tr (lob_allocate_call obj info))] else [])
       \<and> lob (converted nv obj info DPI_NATIVE_TYPE_LOB d tr) = None
       \<and> ociValue (converted nv obj info DPI_NATIVE_TYPE_LOB d tr) = locator (asLOB (value' d))
       \<and> clear_calls nv obj info (converted nv obj info DPI_NATIVE_TYPE_LOB d tr) = []
       \<and> (info = elementTypeInfo (type obj)
           \<and> dpiObject__checkIsCollection nv obj ''dpiObject_appendElement'' tr0 = (Inr (), tr) \<longrightarrow>
            releases (new_events tr
                (snd (dpiObject_appendElement nv obj DPI_NATIVE_TYPE_BYTES (Some d) tr0)))
              = (if status nv tr (lob_allocate_call obj info)
                 then [release_lob (outLob nv tr (lob_allocate_call obj info))] else [])
            \<and> releases (new_events tr
                (snd (dpiObject_appendElement nv obj DPI_NATIVE_TYPE_LOB (Some d) tr0))) = [])"
proof -
  have b: "lob (converted nv obj info DPI_NATIVE_TYPE_BYTES d tr)
           = (if status nv tr (lob_allocate_call obj info)
              then Some (outLob nv tr (lob_allocate_call obj info)) else None)"
    using assms by (rule lob_from_bytes)
  have h: "lob (converted nv obj info DPI_NATIVE_TYPE_LOB d tr) = None"
      "ociValue (converted nv obj info DPI_NATIVE_TYPE_LOB d tr) = locator (asLOB (value' d))"
    using lob_by_handle [OF assms] by simp_all
  have cb: "clear_calls nv obj info (converted nv obj info DPI_NATIVE_TYPE_BYTES d tr)
           = (if status nv tr (lob_allocate_call obj info)
              then [release_lob (outLob nv tr (lob_allocate_call obj info))] else [])"
    by (simp add: clear_calls_lob [OF assms(2)] b)
  have ch: "clear_calls nv obj info (converted nv obj info DPI_NATIVE_TYPE_LOB d tr) = []"
    by (simp add: clear_calls_lob [OF assms(2)] h(1))
  have ap: "releases (new_events tr (snd (dpiObject_appendElement nv obj nt (Some d) tr0)))
         = clear_calls nv obj info (converted nv obj info nt d tr)"
    if "info = elementTypeInfo (type obj)"
      "dpiObject__checkIsCollection nv obj ''dpiObject_appendElement'' tr0 = (Inr (), tr)" for nt
    using appendElement_releases [OF that(2) converted_def, where nt = nt and d = d] that(1)
    by (simp add: clear_calls_def)
  have ap_bytes: "releases (new_events tr
                (snd (dpiObject_appendElement nv obj DPI_NATIVE_TYPE_BYTES (Some d) tr0)))
              = (if status nv tr (lob_allocate_call obj info)
                 then [release_lob (outLob nv tr (lob_allocate_call obj info))] else [])"
    if "info = elementTypeInfo (type obj)
           \<and> dpiObject__checkIsCollection nv obj ''dpiObject_appendElement'' tr0 = (Inr (), tr)"
    using ap [of DPI_NATIVE_TYPE_BYTES] that cb by metis
  have ap_handle: "releases (new_events tr
                (snd (dpiObject_appendElement nv obj DPI_NATIVE_TYPE_LOB (Some d) tr0))) = []"
    if "info = elementTypeInfo (type obj)
           \<and> dpiObject__checkIsCollection nv obj ''dpiObject_appendElement'' tr0 = (Inr (), tr)"
    using ap [of DPI_NATIVE_TYPE_LOB] that ch by metis
  show ?thesis
    by (intro conjI impI) (fact b h cb ch | erule ap_bytes | erule ap_handle)+
qed

theorem new_lob_released_by_clear_witness:
  "\<not> isNull ada \<and> is_lob_type (oracleTypeNum (elementTypeInfo (type clob_list)))
   \<and> dpiObject__checkIsCollection (native_failing ''dpiLob__setFromBytes'') clob_list
        ''dpiObject_appendElement'' []
      = (Inr (), snd (dpiObject__checkIsCollection (native_failing ''dpiLob__setFromBytes'')
           clob_list ''dpiObject_appendElement'' []))
   \<and> releases (new_events
         (snd (dpiObject__checkIsCollection (native_failing ''dpiLob__setFromBytes'')
            clob_list ''dpiObject_appendElement'' []))
         (snd (dpiObject_appendElement (native_failing ''dpiLob__setFromBytes'') clob_list
            DPI_NATIVE_TYPE_BYTES (Some ada) [])))
       = [release_lob new_lob]
   \<and> releases (new_events
         (snd (dpiObject__checkIsCollection (native_failing ''dpiLob__setFromBytes'')
            clob_list ''dpiObject_appendElement'' []))
         (snd (dpiObject_appendElement (native_failing ''dpiLob__setFromBytes'') clob_list
            DPI_NATIVE_TYPE_LOB (Some ada) [])))
       = []"
proof -
  let ?nv = "native_failing ''dpiLob__setFromBytes''"
  let ?tr = "snd (dpiObject__checkIsCollection ?nv clob_list ''dpiObject_appendElement'' [])"
  have d: "\<not> isNull ada" by (simp add: ada_def)
  have l: "is_lob_type (oracleTypeNum (elementTypeInfo (type clob_list)))"
    by (simp add: is_lob_type_def example_defs)
  have col: "isCollection (type clob_list)" by (simp add: example_defs)
  have v: "dpiObject__checkIsCollection ?nv clob_list ''dpiObject_appendElement'' [] = (Inr (), ?tr)"
    by (rule checkIsCollection_passes [OF _ col]) (auto simp: native_failing_def native_with_def)
  have s: "status ?nv tr (lob_allocate_call clob_list info)" for tr info
    by (simp add: native_failing_def native_with_def lob_allocate_call_def)
  have o: "outLob ?nv tr c = new_lob" for tr c
    by (simp add: native_failing_def native_with_def)
  show ?thesis
    using d l v s o
      new_lob_released_by_clear [OF d l, where nv = ?nv and obj = clob_list and tr = ?tr
        and ?tr0.0 = "[]"]
    by simp
qed

end
